theory Spec2Isabelle
  imports Main "HOL-Library.AList" "HOL-Library.Sublist"
begin

section \<open>Values, dictionaries and errors\<close>

text \<open>
  The result-aggregation code of \<^verbatim>\<open>tools/utils.py\<close> moves values between JSON
  objects, CSV tables and pandas data frames. It never computes with a number: it only
  asks whether a value is missing, converts it with \<^verbatim>\<open>str\<close> and writes it out. A number
  (a Python int or a float other than NaN) is therefore represented by its Python
  \<^verbatim>\<open>repr\<close>, which identifies it. Strings are ASCII text.
\<close>

datatype scalar = PNone | PNaN | PBool bool | PNum string | PStr string

text \<open>
  A value of a JSON object is a scalar or a list of scalars (the \<^verbatim>\<open>tags\<close> of a run
  are a list). Nested objects and nested lists do not occur in the run summaries these
  functions read and are outside this type.
\<close>

datatype jval = Scalar scalar | JList "scalar list"

text \<open>
  A Python \<^verbatim>\<open>dict\<close> keeps its keys in insertion order: an association list with
  distinct keys. \<^verbatim>\<open>d[k] = v\<close> is \<^const>\<open>AList.update\<close>: it replaces the value in place
  when the key is present and appends the pair otherwise.
\<close>

type_synonym dict = "(string \<times> jval) list"

datatype error =
    KeyError "string list"
  | ValueError
  | TypeError
  | RuntimeError string
  | FileNotFoundError string
  | EmptyDataError
  | ParserError
  | JSONDecodeError

text \<open>Python's \<^verbatim>\<open>str\<close> on a scalar.\<close>

fun str :: "scalar \<Rightarrow> string" where
  "str PNone = ''None''"
| "str PNaN = ''nan''"
| "str (PBool b) = (if b then ''True'' else ''False'')"
| "str (PNum r) = r"
| "str (PStr s) = s"

text \<open>\<^verbatim>\<open>sep.join(xs)\<close>.\<close>

fun join :: "string \<Rightarrow> string list \<Rightarrow> string" where
  "join sep [] = []"
| "join sep [x] = x"
| "join sep (x # y # ys) = x @ sep @ join sep (y # ys)"

text \<open>
  \<^verbatim>\<open>str.strip()\<close> removes leading and trailing whitespace; on ASCII text the
  whitespace characters are the codes 9 to 13, 28 to 31 and 32.
\<close>

definition isspace :: "char \<Rightarrow> bool" where
  "isspace c = (of_char c \<in> {9, 10, 11, 12, 13, 28, 29, 30, 31, 32 :: nat})"

definition strip :: "string \<Rightarrow> string" where
  "strip s = rev (dropWhile isspace (rev (dropWhile isspace s)))"

text \<open>\<^verbatim>\<open>str(n)\<close> for an integer: its decimal digits, with a minus sign when negative.\<close>

fun digits :: "nat \<Rightarrow> string" where
  "digits n = (if n < 10 then [char_of (48 + n)] else digits (n div 10) @ [char_of (48 + n mod 10)])"

declare digits.simps [simp del]

definition str_int :: "int \<Rightarrow> string" where
  "str_int i = (if i < 0 then CHR ''-'' # digits (nat (- i)) else digits (nat i))"

section \<open>The process runner: \<^verbatim>\<open>Console.sh\<close>\<close>

text \<open>
  \<^verbatim>\<open>Console.sh\<close> starts a subprocess and waits for it. What the subprocess does is
  the input of the model: it ends with captured output and a return code, or the wait
  times out, or another exception is raised while reading. Logging is not modelled.

  The parameter \<^verbatim>\<open>secret\<close> is annotated and documented as \<^verbatim>\<open>bool\<close>, is tested for
  truth, and is then concatenated to a string; Python accepts any value for it, so the
  model keeps the two kinds of value that matter: a bool and a string. Concatenating a
  string and a bool with \<^verbatim>\<open>+\<close> raises \<^verbatim>\<open>TypeError\<close>.
\<close>

datatype proc_outcome = Exited string int | TimeoutExpired | OtherException

datatype secret_arg = SecretBool bool | SecretStr string

fun secret_truthy :: "secret_arg \<Rightarrow> bool" where
  "secret_truthy (SecretBool b) = b"
| "secret_truthy (SecretStr s) = (s \<noteq> [])"

definition quote :: string where
  "quote = [CHR 0x27]"

definition sh :: "string \<Rightarrow> bool \<Rightarrow> secret_arg \<Rightarrow> proc_outcome \<Rightarrow> error + string" where
  "sh command can_fail secret outcome =
     (case outcome of
        TimeoutExpired \<Rightarrow> Inl (RuntimeError ''Console script timeout'')
      | OtherException \<Rightarrow> Inl (RuntimeError ''Console script failed'')
      | Exited outs returncode \<Rightarrow>
          if returncode \<noteq> 0 then
            (if \<not> can_fail then
               (if \<not> secret_truthy secret then
                  Inl (RuntimeError (''Subprocess '' @ quote @ command @ quote
                         @ '' failed with exit code '' @ str_int returncode))
                else
                  (case secret of
                     SecretStr s \<Rightarrow>
                       Inl (RuntimeError (''Subprocess '' @ quote @ s @ quote
                              @ '' failed with exit code '' @ str_int returncode))
                   | SecretBool b \<Rightarrow> Inl TypeError))
             else Inr (strip outs))
          else Inr (strip outs))"

section \<open>Flattening the tags\<close>

text \<open>
  \<^verbatim>\<open>flatten_tags\<close> mutates the dictionary it is given; the model returns the
  dictionary after the call. \<^verbatim>\<open>perf_entry["tags"]\<close> raises \<^verbatim>\<open>KeyError\<close> when the key
  is absent.
\<close>

definition flatten_tags :: "dict \<Rightarrow> error + dict" where
  "flatten_tags perf_entry =
     (case map_of perf_entry ''tags'' of
        None \<Rightarrow> Inl (KeyError [''tags''])
      | Some (JList items) \<Rightarrow>
          Inr (AList.update ''tags'' (Scalar (PStr (join '','' (map str items)))) perf_entry)
      | Some (Scalar v) \<Rightarrow> Inr perf_entry)"

section \<open>Data frames and files\<close>

text \<open>
  A pandas data frame is a list of column labels and a list of rows, every row a list
  of cells. The row index plays no part: every frame is written without it. The
  operations below are the pandas calls the code makes, for frames whose column labels
  are distinct; the type coercions pandas applies to whole columns are not modelled.
\<close>

record dataframe =
  columns :: "string list"
  rows :: "scalar list list"

text \<open>
  A file holds a JSON object or a CSV table. A CSV table is kept as the frame pandas
  parses from it and writes to it: an empty field is the cell \<^const>\<open>PNaN\<close>. Parsing
  text is the work of \<^verbatim>\<open>json\<close> and pandas and is not part of the model.
\<close>

datatype file_content = JsonFile dict | CsvFile dataframe

type_synonym fs = "string \<rightharpoonup> file_content"

text \<open>The cell of a row under a column label; a label the row does not have gives NaN.\<close>

definition cell :: "string list \<Rightarrow> scalar list \<Rightarrow> string \<Rightarrow> scalar" where
  "cell cols r c = (case map_of (zip cols r) c of None \<Rightarrow> PNaN | Some v \<Rightarrow> v)"

definition reindex_row :: "string list \<Rightarrow> string list \<Rightarrow> scalar list \<Rightarrow> scalar list" where
  "reindex_row new old r = map (cell old r) new"

text \<open>\<^verbatim>\<open>pd.DataFrame()\<close>: no columns, no rows.\<close>

definition empty_frame :: dataframe where
  "empty_frame = \<lparr>columns = [], rows = []\<rparr>"

text \<open>
  \<^verbatim>\<open>pd.concat([a, b])\<close>: the columns of \<open>a\<close> followed by the columns of \<open>b\<close> that
  \<open>a\<close> does not have; the rows of \<open>a\<close>, then the rows of \<open>b\<close>, each with NaN under
  the columns it lacks. pandas then gives every column of the result one type: a column
  of integers that receives a float or a missing value comes back as floats (5 becomes
  5.0). The model copies the cells as they are and does not follow this; the properties
  of the multiple-results path below are therefore stated for the columns, the number of
  rows and the rows appended (in general up to the type of a number, exactly where the
  cells are strings, floats and missing values), and not for the cells of the rows the
  table had before.
\<close>

definition pd_concat :: "dataframe \<Rightarrow> dataframe \<Rightarrow> dataframe" where
  "pd_concat a b =
     (let cols = columns a @ filter (\<lambda>c. c \<notin> set (columns a)) (columns b)
      in \<lparr>columns = cols,
          rows = map (reindex_row cols (columns a)) (rows a)
               @ map (reindex_row cols (columns b)) (rows b)\<rparr>)"

text \<open>
  \<^verbatim>\<open>df[labels]\<close> with a list of labels: the frame restricted to these columns, in
  this order; \<^verbatim>\<open>KeyError\<close> with the absent labels when some label is not a column.
\<close>

definition select_columns :: "dataframe \<Rightarrow> string list \<Rightarrow> error + dataframe" where
  "select_columns df labels =
     (case filter (\<lambda>c. c \<notin> set (columns df)) labels of
        [] \<Rightarrow> Inr \<lparr>columns = labels, rows = map (reindex_row labels (columns df)) (rows df)\<rparr>
      | missing \<Rightarrow> Inl (KeyError missing))"

text \<open>
  \<^verbatim>\<open>pd.DataFrame(d, index=[0])\<close>: one row, one column for each key. A scalar value
  is the cell; a list must have the length of the index, which is one.
\<close>

fun cell_of_jval :: "jval \<Rightarrow> error + scalar" where
  "cell_of_jval (Scalar v) = Inr v"
| "cell_of_jval (JList [x]) = Inr x"
| "cell_of_jval (JList xs) = Inl ValueError"

fun cells_of :: "jval list \<Rightarrow> error + scalar list" where
  "cells_of [] = Inr []"
| "cells_of (v # vs) =
     (case cell_of_jval v of
        Inl e \<Rightarrow> Inl e
      | Inr x \<Rightarrow> (case cells_of vs of Inl e \<Rightarrow> Inl e | Inr xs \<Rightarrow> Inr (x # xs)))"

definition DataFrame :: "dict \<Rightarrow> error + dataframe" where
  "DataFrame d =
     (case cells_of (map snd d) of
        Inl e \<Rightarrow> Inl e
      | Inr xs \<Rightarrow> Inr \<lparr>columns = map fst d, rows = [xs]\<rparr>)"

text \<open>\<^verbatim>\<open>df.to_dict(orient="records")\<close>: every row as a dictionary from label to cell.\<close>

definition to_dict_records :: "dataframe \<Rightarrow> (string \<times> scalar) list list" where
  "to_dict_records df = map (zip (columns df)) (rows df)"

text \<open>\<^verbatim>\<open>pd.notna\<close> on a scalar.\<close>

fun notna :: "scalar \<Rightarrow> bool" where
  "notna PNone = False"
| "notna PNaN = False"
| "notna _ = True"

definition read_json :: "string \<Rightarrow> fs \<Rightarrow> error + dict" where
  "read_json js fs =
     (case fs js of
        None \<Rightarrow> Inl (FileNotFoundError js)
      | Some (JsonFile d) \<Rightarrow> Inr d
      | Some (CsvFile t) \<Rightarrow> Inl JSONDecodeError)"

text \<open>\<^verbatim>\<open>pd.read_csv\<close>; a file without a header line has no columns to parse.\<close>

definition read_csv :: "string \<Rightarrow> fs \<Rightarrow> error + dataframe" where
  "read_csv path fs =
     (case fs path of
        None \<Rightarrow> Inl (FileNotFoundError path)
      | Some (JsonFile d) \<Rightarrow> Inl ParserError
      | Some (CsvFile t) \<Rightarrow> if columns t = [] then Inl EmptyDataError else Inr t)"

text \<open>
  \<^verbatim>\<open>df.to_csv(path, index=False)\<close>: a missing value (None or NaN) is written as an
  empty field, and so is the empty string.
\<close>

fun csv_field :: "scalar \<Rightarrow> scalar" where
  "csv_field PNone = PNaN"
| "csv_field (PStr s) = (if s = [] then PNaN else PStr s)"
| "csv_field v = v"

definition to_csv :: "dataframe \<Rightarrow> string \<Rightarrow> fs \<Rightarrow> fs" where
  "to_csv df path fs =
     fs(path \<mapsto> CsvFile \<lparr>columns = columns df, rows = map (map csv_field) (rows df)\<rparr>)"

definition df_strip_columns :: "dataframe \<Rightarrow> dataframe" where
  "df_strip_columns df = df\<lparr>columns := map strip (columns df)\<rparr>"

section \<open>The result aggregator\<close>

definition perf_entry_df_to_csv :: "dataframe \<Rightarrow> fs \<Rightarrow> fs" where
  "perf_entry_df_to_csv perf_entry fs = to_csv perf_entry ''perf_entry.csv'' fs"

text \<open>
  A function that can raise and writes files returns its outcome together with the
  file system it leaves behind; the callers of \<^verbatim>\<open>perf_entry_dict_to_csv\<close> go on with
  the dictionary it has mutated, so the model returns that dictionary.
\<close>

definition perf_entry_dict_to_csv :: "dict \<Rightarrow> fs \<Rightarrow> (error + dict) \<times> fs" where
  "perf_entry_dict_to_csv perf_entry fs =
     (case flatten_tags perf_entry of
        Inl e \<Rightarrow> (Inl e, fs)
      | Inr perf_entry' \<Rightarrow>
          (case DataFrame perf_entry' of
             Inl e \<Rightarrow> (Inl e, fs)
           | Inr js_df \<Rightarrow> (Inr perf_entry', perf_entry_df_to_csv js_df fs)))"

definition handle_single_result :: "dataframe \<Rightarrow> string \<Rightarrow> fs \<Rightarrow> (error + dataframe) \<times> fs" where
  "handle_single_result perf_csv_df single_result fs =
     (case read_json single_result fs of
        Inl e \<Rightarrow> (Inl e, fs)
      | Inr single_result_json \<Rightarrow>
          (case perf_entry_dict_to_csv single_result_json fs of
             (Inl e, fs') \<Rightarrow> (Inl e, fs')
           | (Inr single_result_json', fs') \<Rightarrow>
               (case DataFrame single_result_json' of
                  Inl e \<Rightarrow> (Inl e, fs')
                | Inr d \<Rightarrow> (Inr (pd_concat perf_csv_df d), fs'))))"

definition handle_exception_result :: "dataframe \<Rightarrow> string \<Rightarrow> fs \<Rightarrow> (error + dataframe) \<times> fs" where
  "handle_exception_result perf_csv_df exception_result fs =
     (case read_json exception_result fs of
        Inl e \<Rightarrow> (Inl e, fs)
      | Inr exception_result_json \<Rightarrow>
          (case perf_entry_dict_to_csv exception_result_json fs of
             (Inl e, fs') \<Rightarrow> (Inl e, fs')
           | (Inr exception_result_json', fs') \<Rightarrow>
               (case DataFrame exception_result_json' of
                  Inl e \<Rightarrow> (Inl e, fs')
                | Inr d \<Rightarrow> (Inr (pd_concat perf_csv_df d), fs'))))"

definition headings :: "string list" where
  "headings = [''model'', ''performance'', ''metric'']"

text \<open>The loop over \<^verbatim>\<open>headings\<close> that raises at the first heading the header lacks.\<close>

fun check_headings :: "string list \<Rightarrow> string list \<Rightarrow> error + unit" where
  "check_headings [] multiple_results_header = Inr ()"
| "check_headings (heading # hs) multiple_results_header =
     (if heading \<notin> set multiple_results_header
      then Inl (RuntimeError (''Multiple Results CSV file is missing the '' @ heading @ '' column''))
      else check_headings hs multiple_results_header)"

text \<open>
  The loop over the records of the results table. \<^verbatim>\<open>row\<close> is the dictionary
  \<^verbatim>\<open>common_info_json\<close> itself, not a copy: what one pass writes into it is there in
  the next pass, so the dictionary is threaded through the recursion.
  \<^verbatim>\<open>model_name + "_"\<close> raises \<^verbatim>\<open>TypeError\<close> when \<^verbatim>\<open>model_name\<close> is None.
\<close>

fun results_loop ::
  "string option \<Rightarrow> dict \<Rightarrow> dataframe \<Rightarrow> (string \<times> scalar) list list \<Rightarrow> error + dataframe" where
  "results_loop model_name row final_multiple_results_df [] = Inr final_multiple_results_df"
| "results_loop model_name row final_multiple_results_df (r # rs) =
     (case model_name of
        None \<Rightarrow> Inl TypeError
      | Some name \<Rightarrow>
     (case map_of r ''model'' of
        None \<Rightarrow> Inl (KeyError [''model''])
      | Some m \<Rightarrow>
     (case map_of r ''performance'' of
        None \<Rightarrow> Inl (KeyError [''performance''])
      | Some p \<Rightarrow>
     (case map_of r ''metric'' of
        None \<Rightarrow> Inl (KeyError [''metric''])
      | Some u \<Rightarrow>
          (let row1 = AList.update ''model'' (Scalar (PStr (name @ ''_'' @ str m))) row;
               row2 = AList.update ''performance'' (Scalar p) row1;
               row3 = AList.update ''metric'' (Scalar u) row2;
               row4 = AList.update ''status''
                        (Scalar (PStr (if p \<noteq> PNone \<and> notna p then ''SUCCESS'' else ''FAILURE''))) row3
           in case DataFrame row4 of
                Inl e \<Rightarrow> Inl e
              | Inr d \<Rightarrow> results_loop model_name row4 (pd_concat final_multiple_results_df d) rs)))))"

definition handle_multiple_results ::
  "dataframe \<Rightarrow> string \<Rightarrow> string option \<Rightarrow> string option \<Rightarrow> fs \<Rightarrow> (error + dataframe) \<times> fs" where
  "handle_multiple_results perf_csv_df multiple_results common_info model_name fs =
     (case read_csv multiple_results fs of
        Inl e \<Rightarrow> (Inl e, fs)
      | Inr t \<Rightarrow>
          (let multiple_results_df = df_strip_columns t;
               multiple_results_header = columns multiple_results_df
           in if length multiple_results_header \<noteq> 3
              then (Inl (RuntimeError
                ''Multiple Results CSV file must have three columns: model, performance, metric''), fs)
              else
                (case check_headings headings multiple_results_header of
                   Inl e \<Rightarrow> (Inl e, fs)
                 | Inr _ \<Rightarrow>
                (case common_info of
                   None \<Rightarrow> (Inl TypeError, fs)
                 | Some ci \<Rightarrow>
                (case read_json ci fs of
                   Inl e \<Rightarrow> (Inl e, fs)
                 | Inr common_info_json \<Rightarrow>
                (case flatten_tags common_info_json of
                   Inl e \<Rightarrow> (Inl e, fs)
                 | Inr common_info_json' \<Rightarrow>
                (case results_loop model_name common_info_json' empty_frame
                        (to_dict_records multiple_results_df) of
                   Inl e \<Rightarrow> (Inl e, fs)
                 | Inr built \<Rightarrow>
                (case select_columns built (columns perf_csv_df) of
                   Inl e \<Rightarrow> (Inl e, fs)
                 | Inr final_multiple_results_df \<Rightarrow>
                     (Inr (pd_concat perf_csv_df final_multiple_results_df),
                      perf_entry_df_to_csv final_multiple_results_df fs)))))))))"

definition report_columns :: "string list" where
  "report_columns =
     [''pipeline'', ''model'', ''tags'', ''args'', ''docker_file'', ''base_docker'',
      ''docker_sha'', ''docker_image'', ''machine_name'', ''host_os'', ''gpu_architecture'',
      ''n_gpus'', ''training_precision'', ''performance'', ''metric'', ''status'',
      ''build_duration'', ''test_duration'', ''git_commit'', ''relative_change'']"

text \<open>
  The first statement of \<^verbatim>\<open>update_perf_csv\<close>: an empty frame with the twenty report
  columns when the report does not exist, the report read and its labels stripped
  otherwise.
\<close>

definition load_perf_csv :: "string \<Rightarrow> fs \<Rightarrow> error + dataframe" where
  "load_perf_csv perf_csv fs =
     (if perf_csv \<notin> dom fs then Inr \<lparr>columns = report_columns, rows = []\<rparr>
      else (case read_csv perf_csv fs of Inl e \<Rightarrow> Inl e | Inr t \<Rightarrow> Inr (df_strip_columns t)))"

text \<open>An optional string argument counts as given when it is neither None nor empty.\<close>

fun truthy :: "string option \<Rightarrow> bool" where
  "truthy None = False"
| "truthy (Some s) = (s \<noteq> [])"

definition update_perf_csv ::
  "string option \<Rightarrow> string option \<Rightarrow> string option \<Rightarrow> string option \<Rightarrow> string
     \<Rightarrow> string option \<Rightarrow> string option \<Rightarrow> fs \<Rightarrow> (error + unit) \<times> fs" where
  "update_perf_csv single_result exception_result failed_result multiple_results perf_csv
       model_name common_info fs =
     (case load_perf_csv perf_csv fs of
        Inl e \<Rightarrow> (Inl e, fs)
      | Inr perf_csv_df \<Rightarrow>
          (case (if truthy multiple_results
                 then handle_multiple_results perf_csv_df (the multiple_results)
                        common_info model_name fs
                 else if truthy single_result
                 then handle_single_result perf_csv_df (the single_result) fs
                 else if truthy exception_result
                 then handle_exception_result perf_csv_df (the exception_result) fs
                 else (Inl (RuntimeError
                   ''At least one of the following must be provided: single_result, exception_result, failed_result, multiple_results''),
                   fs)) of
             (Inl e, fs') \<Rightarrow> (Inl e, fs')
           | (Inr perf_csv_df', fs') \<Rightarrow> (Inr (), to_csv perf_csv_df' perf_csv fs')))"

section \<open>Notions used to state the properties\<close>

text \<open>The keys the loop of \<^verbatim>\<open>handle_multiple_results\<close> writes into every row.\<close>

definition result_keys :: "string list" where
  "result_keys = [''model'', ''performance'', ''metric'', ''status'']"

text \<open>
  The dictionary one pass of the loop leaves behind, for a record with model \<open>m\<close>,
  performance \<open>p\<close> and metric \<open>u\<close>: the four assignments of the loop body.
\<close>

definition overlay :: "string \<Rightarrow> scalar \<Rightarrow> scalar \<Rightarrow> scalar \<Rightarrow> dict \<Rightarrow> dict" where
  "overlay name m p u row =
     AList.update ''status'' (Scalar (PStr (if p \<noteq> PNone \<and> notna p then ''SUCCESS'' else ''FAILURE'')))
       (AList.update ''metric'' (Scalar u)
         (AList.update ''performance'' (Scalar p)
           (AList.update ''model'' (Scalar (PStr (name @ ''_'' @ str m))) row)))"

text \<open>
  A row \<open>x\<close> under the labels \<open>cols\<close> carries what the loop writes for the record
  \<open>r\<close>: the prefixed model, the performance and the metric of the record, and the status
  that says whether the performance is there.
\<close>

definition built_from :: "string \<Rightarrow> (string \<times> scalar) list \<Rightarrow> string list \<Rightarrow> scalar list \<Rightarrow> bool" where
  "built_from name r cols x \<longleftrightarrow>
     cell cols x ''model'' = PStr (name @ ''_'' @ str (cell (map fst r) (map snd r) ''model''))
   \<and> cell cols x ''performance'' = cell (map fst r) (map snd r) ''performance''
   \<and> cell cols x ''metric'' = cell (map fst r) (map snd r) ''metric''
   \<and> cell cols x ''status''
       = PStr (if notna (cell (map fst r) (map snd r) ''performance'') then ''SUCCESS'' else ''FAILURE'')"

text \<open>
  A valid multi-row artifact: the results table has the three columns, in any order,
  and at least one row, every row with its three fields; the common information has
  tags and makes a one-row frame.
\<close>

definition valid_multiple_artifact :: "dataframe \<Rightarrow> dict \<Rightarrow> bool" where
  "valid_multiple_artifact t info \<longleftrightarrow>
     length (columns t) = 3 \<and> set (map strip (columns t)) = set headings
   \<and> rows t \<noteq> [] \<and> (\<forall>r\<in>set (rows t). length r = 3)
   \<and> (\<exists>info' d. flatten_tags info = Inr info' \<and> DataFrame info' = Inr d)"

text \<open>
  The keys of the rows the loop builds from a common information: its own keys and the
  four keys of the loop.
\<close>

definition built_keys :: "dict \<Rightarrow> string set" where
  "built_keys info = set (map fst info) \<union> set result_keys"


text \<open>The cell that the tags of a record become: a scalar as it is, a list joined.\<close>

fun flat :: "jval \<Rightarrow> scalar" where
  "flat (Scalar v) = v"
| "flat (JList items) = PStr (join '','' (map str items))"

section \<open>Example artifacts\<close>

text \<open>An exception artifact whose status is not a failure.\<close>

definition exception_json :: dict where
  "exception_json =
     [(''model'', Scalar (PStr ''m'')), (''tags'', Scalar (PStr ''t'')),
      (''status'', Scalar (PStr ''SUCCESS''))]"

text \<open>
  The multiple-results scenario: two result rows, the second without a performance, and
  a common information that has a pipeline and two tags.
\<close>

definition scenario_results :: dataframe where
  "scenario_results =
     \<lparr>columns = [''model'', ''performance'', ''metric''],
      rows = [[PStr ''A'', PNum ''10.0'', PStr ''tok/s''], [PStr ''B'', PNaN, PStr ''tok/s'']]\<rparr>"

definition scenario_common_info :: dict where
  "scenario_common_info =
     [(''pipeline'', Scalar (PStr ''p1'')), (''tags'', JList [PStr ''x'', PStr ''y''])]"

definition scenario_fs :: fs where
  "scenario_fs = [''multiple_results.csv'' \<mapsto> CsvFile scenario_results,
                  ''common_info.json'' \<mapsto> JsonFile scenario_common_info]"

text \<open>The keys of the rows the scenario builds, and the two rows under these keys.\<close>

definition scenario_keys :: "string list" where
  "scenario_keys = [''pipeline'', ''tags'', ''model'', ''performance'', ''metric'', ''status'']"

definition scenario_row_A :: "scalar list" where
  "scenario_row_A =
     [PStr ''p1'', PStr ''x,y'', PStr ''suite1_A'', PNum ''10.0'', PStr ''tok/s'', PStr ''SUCCESS'']"

definition scenario_row_B :: "scalar list" where
  "scenario_row_B =
     [PStr ''p1'', PStr ''x,y'', PStr ''suite1_B'', PNaN, PStr ''tok/s'', PStr ''FAILURE'']"


text \<open>The single-result scenario: a run summary without tags.\<close>

definition single_json :: dict where
  "single_json =
     [(''model'', Scalar (PStr ''resnet'')), (''performance'', Scalar (PStr ''123.4'')),
      (''metric'', Scalar (PStr ''images/sec'')), (''status'', Scalar (PStr ''SUCCESS''))]"

text \<open>Results tables whose header is not the three columns.\<close>

definition perf_header_results :: dataframe where
  "perf_header_results =
     \<lparr>columns = [''model'', ''perf'', ''metric''], rows = [[PStr ''A'', PNum ''10.0'', PStr ''tok/s'']]\<rparr>"

definition extra_column_results :: dataframe where
  "extra_column_results =
     \<lparr>columns = [''model'', ''performance'', ''metric'', ''extra''],
      rows = [[PStr ''A'', PNum ''10.0'', PStr ''tok/s'', PStr ''x'']]\<rparr>"

section \<open>Auxiliary facts\<close>

lemma map_of_Some_key: "map_of d k = Some v \<Longrightarrow> k \<in> set (map fst d)"
  by (metis map_of_eq_None_iff option.distinct(1) set_map)

lemma map_of_zip_notin: "c \<notin> set cols \<Longrightarrow> map_of (zip cols r) c = None"
  by (metis in_set_zipE map_of_SomeD not_Some_eq)

lemma cells_of_length: "cells_of vs = Inr xs \<Longrightarrow> length xs = length vs"
  by (induction vs arbitrary: xs) (auto split: sum.splits)

lemma cells_of_lookup:
  "cells_of (map snd d) = Inr xs \<Longrightarrow> map_of d k = Some (Scalar v)
     \<Longrightarrow> map_of (zip (map fst d) xs) k = Some v"
  by (induction d arbitrary: xs) (auto split: sum.splits if_splits)

lemma DataFrame_cell:
  "DataFrame d = Inr f \<Longrightarrow> map_of d k = Some (Scalar v)
     \<Longrightarrow> columns f = map fst d
         \<and> (\<exists>xs. rows f = [xs] \<and> length xs = length d \<and> cell (map fst d) xs k = v)"
  using cells_of_length [of "map snd d"]
  by (auto simp: DataFrame_def cell_def cells_of_lookup split: sum.splits)

lemma cell_absent: "c \<notin> set cols \<Longrightarrow> cell cols r c = PNaN"
  by (simp add: cell_def map_of_zip_notin)

lemma cell_reindex_row:
  "cell new (reindex_row new old r) c = (if c \<in> set new then cell old r c else PNaN)"
  by (simp add: cell_def reindex_row_def map_of_zip_map map_of_zip_notin)


lemma columns_pd_concat:
  "columns (pd_concat a b) = columns a @ filter (\<lambda>c. c \<notin> set (columns a)) (columns b)"
  by (simp add: pd_concat_def Let_def)

lemma rows_pd_concat:
  "rows (pd_concat a b) =
     map (reindex_row (columns (pd_concat a b)) (columns a)) (rows a)
   @ map (reindex_row (columns (pd_concat a b)) (columns b)) (rows b)"
  by (simp add: pd_concat_def Let_def)

lemma set_columns_pd_concat: "set (columns (pd_concat a b)) = set (columns a) \<union> set (columns b)"
  by (auto simp: columns_pd_concat)

lemma flatten_tags_tags_scalar:
  "flatten_tags d = Inr d' \<Longrightarrow> \<exists>v. map_of d' ''tags'' = Some (Scalar v)"
  by (auto simp: flatten_tags_def update_conv' split: option.splits jval.splits)

lemma flatten_tags_other_keys:
  "flatten_tags d = Inr d' \<Longrightarrow> k \<noteq> ''tags'' \<Longrightarrow> map_of d' k = map_of d k"
  by (auto simp: flatten_tags_def update_conv' split: option.splits jval.splits)

lemma flatten_tags_keys:
  assumes "flatten_tags d = Inr d'"
  shows "map fst d' = map fst d"
proof (cases "map_of d ''tags''")
  case None
  with assms show ?thesis by (simp add: flatten_tags_def)
next
  case (Some t)
  then have k: "''tags'' \<in> fst ` set d" by (metis map_of_eq_None_iff option.distinct(1))
  show ?thesis
  proof (cases t)
    case (Scalar v)
    with assms Some show ?thesis by (simp add: flatten_tags_def)
  next
    case (JList items)
    with assms Some have "d' = AList.update ''tags'' (Scalar (PStr (join '','' (map str items)))) d"
      by (simp add: flatten_tags_def)
    with k show ?thesis by (simp add: update_keys)
  qed
qed

lemma cells_of_update:
  "cells_of (map snd d) = Inr xs \<Longrightarrow> \<exists>ys. cells_of (map snd (AList.update k (Scalar v) d)) = Inr ys"
  by (induction d arbitrary: xs) (auto split: sum.splits)

lemma DataFrame_cells:
  assumes "cells_of (map snd d) = Inr xs"
  shows "DataFrame d = Inr \<lparr>columns = map fst d, rows = [xs]\<rparr>
         \<and> (\<forall>k v. map_of d k = Some (Scalar v) \<longrightarrow> cell (map fst d) xs k = v)"
  using assms by (simp add: DataFrame_def cell_def cells_of_lookup)


lemma set_update_keys: "set (map fst (AList.update k v d)) = insert k (set (map fst d))"
  using dom_update [of k v d] by simp

lemma cell_pd_concat_old:
  assumes "i < length (rows a)"
  shows "cell (columns (pd_concat a b)) (rows (pd_concat a b) ! i) c = cell (columns a) (rows a ! i) c"
proof -
  have "rows (pd_concat a b) ! i = reindex_row (columns (pd_concat a b)) (columns a) (rows a ! i)"
    using assms by (simp add: rows_pd_concat nth_append)
  moreover have "c \<notin> set (columns (pd_concat a b)) \<Longrightarrow> c \<notin> set (columns a)"
    by (simp add: set_columns_pd_concat)
  ultimately show ?thesis by (simp add: cell_reindex_row cell_absent)
qed

lemma cell_pd_concat_new:
  assumes "i < length (rows b)"
  shows "cell (columns (pd_concat a b)) (rows (pd_concat a b) ! (length (rows a) + i)) c
           = cell (columns b) (rows b ! i) c"
proof -
  have "rows (pd_concat a b) ! (length (rows a) + i)
          = reindex_row (columns (pd_concat a b)) (columns b) (rows b ! i)"
    using assms by (simp add: rows_pd_concat nth_append)
  moreover have "c \<notin> set (columns (pd_concat a b)) \<Longrightarrow> c \<notin> set (columns b)"
    by (simp add: set_columns_pd_concat)
  ultimately show ?thesis by (simp add: cell_reindex_row cell_absent)
qed

lemma length_rows_pd_concat: "length (rows (pd_concat a b)) = length (rows a) + length (rows b)"
  by (simp add: rows_pd_concat)


lemma results_loop_Cons:
  assumes "map_of r ''model'' = Some m" "map_of r ''performance'' = Some p"
    "map_of r ''metric'' = Some u"
  shows "results_loop (Some name) row final (r # rs) =
           (case DataFrame (overlay name m p u row) of
              Inl e \<Rightarrow> Inl e
            | Inr d \<Rightarrow> results_loop (Some name) (overlay name m p u row) (pd_concat final d) rs)"
  unfolding overlay_def using assms by (simp add: Let_def cong: sum.case_cong)

lemma overlay_keys: "set (map fst (overlay name m p u row)) = set (map fst row) \<union> set result_keys"
  by (auto simp: overlay_def set_update_keys result_keys_def simp del: set_map)

lemma overlay_keys_stable:
  "set result_keys \<subseteq> set (map fst row) \<Longrightarrow> map fst (overlay name m p u row) = map fst row"
  by (simp add: overlay_def update_keys result_keys_def)

lemma overlay_cells_of:
  "cells_of (map snd row) = Inr xs \<Longrightarrow> \<exists>ys. cells_of (map snd (overlay name m p u row)) = Inr ys"
  unfolding overlay_def by (meson cells_of_update)

lemma overlay_lookup:
  "map_of (overlay name m p u row) ''model'' = Some (Scalar (PStr (name @ ''_'' @ str m)))"
  "map_of (overlay name m p u row) ''performance'' = Some (Scalar p)"
  "map_of (overlay name m p u row) ''metric'' = Some (Scalar u)"
  "map_of (overlay name m p u row) ''status''
     = Some (Scalar (PStr (if notna p then ''SUCCESS'' else ''FAILURE'')))"
  by (auto simp: overlay_def update_conv')



lemma cell_fst_snd:
  "cell (map fst r) (map snd r) k = (case map_of r k of None \<Rightarrow> PNaN | Some v \<Rightarrow> v)"
  by (simp add: cell_def zip_map_fst_snd)

lemma results_loop_rows:
  assumes "\<forall>r\<in>set recs. map_of r ''model'' \<noteq> None \<and> map_of r ''performance'' \<noteq> None
              \<and> map_of r ''metric'' \<noteq> None"
    and "cells_of (map snd row) = Inr xs0"
    and "columns final = [] \<or> (columns final = map fst row \<and> set result_keys \<subseteq> set (map fst row))"
  shows "\<exists>built. results_loop (Some name) row final recs = Inr built
      \<and> length (rows built) = length (rows final) + length recs
      \<and> (recs \<noteq> [] \<longrightarrow> set (columns built) = set (map fst row) \<union> set result_keys)
      \<and> (recs = [] \<longrightarrow> built = final)
      \<and> (\<forall>i<length (rows final). \<forall>c.
            cell (columns built) (rows built ! i) c = cell (columns final) (rows final ! i) c)
      \<and> (\<forall>i<length recs.
            built_from name (recs ! i) (columns built) (rows built ! (length (rows final) + i)))"
  using assms
proof (induction recs arbitrary: row final xs0)
  case Nil
  then show ?case by simp
next
  case (Cons r rs)
  from Cons.prems(1) obtain m p u where
    m: "map_of r ''model'' = Some m" and p: "map_of r ''performance'' = Some p"
    and u: "map_of r ''metric'' = Some u" by auto
  define row4 where "row4 = overlay name m p u row"
  obtain ys where ys: "cells_of (map snd row4) = Inr ys"
    using overlay_cells_of [OF Cons.prems(2)] row4_def by blast
  define d where "d = \<lparr>columns = map fst row4, rows = [ys]\<rparr>"
  have fr: "DataFrame row4 = Inr d"
    and cells: "\<And>k v. map_of row4 k = Some (Scalar v) \<Longrightarrow> cell (map fst row4) ys k = v"
    using DataFrame_cells [OF ys] by (simp_all add: d_def)
  define final' where "final' = pd_concat final d"
  have step: "results_loop (Some name) row final (r # rs) = results_loop (Some name) row4 final' rs"
    using results_loop_Cons [OF m p u, of name row final rs] fr
    by (simp add: row4_def final'_def)
  have keys4: "set result_keys \<subseteq> set (map fst row4)"
    unfolding row4_def overlay_keys by simp
  have cols': "columns final' = map fst row4"
  proof -
    from Cons.prems(3) show ?thesis
    proof
      assume "columns final = []"
      then show ?thesis by (simp add: final'_def columns_pd_concat d_def)
    next
      assume a: "columns final = map fst row \<and> set result_keys \<subseteq> set (map fst row)"
      then have "map fst row4 = map fst row"
        unfolding row4_def by (simp add: overlay_keys_stable)
      with a show ?thesis by (simp add: final'_def columns_pd_concat d_def)
    qed
  qed
  have len': "length (rows final') = Suc (length (rows final))"
    by (simp add: final'_def length_rows_pd_concat d_def)
  from Cons.prems(1) have rs_ok: "\<forall>r\<in>set rs. map_of r ''model'' \<noteq> None
      \<and> map_of r ''performance'' \<noteq> None \<and> map_of r ''metric'' \<noteq> None" by simp
  from Cons.IH [OF rs_ok ys, of final'] cols' keys4
  obtain built where b: "results_loop (Some name) row4 final' rs = Inr built"
    and bl: "length (rows built) = length (rows final') + length rs"
    and bc: "rs \<noteq> [] \<longrightarrow> set (columns built) = set (map fst row4) \<union> set result_keys"
    and be: "rs = [] \<longrightarrow> built = final'"
    and bo: "\<forall>i<length (rows final'). \<forall>c.
            cell (columns built) (rows built ! i) c = cell (columns final') (rows final' ! i) c"
    and bn: "\<forall>i<length rs.
            built_from name (rs ! i) (columns built) (rows built ! (length (rows final') + i))"
    by blast
  have colset: "set (columns built) = set (map fst row) \<union> set result_keys"
  proof (cases "rs = []")
    case True
    with be cols' show ?thesis using overlay_keys [of name m p u row] by (simp add: row4_def)
  next
    case False
    with bc show ?thesis using overlay_keys [of name m p u row] by (auto simp: row4_def)
  qed
  have old: "\<forall>i<length (rows final). \<forall>c.
            cell (columns built) (rows built ! i) c = cell (columns final) (rows final ! i) c"
  proof (intro allI impI)
    fix i c assume i: "i < length (rows final)"
    then have "cell (columns built) (rows built ! i) c = cell (columns final') (rows final' ! i) c"
      using bo len' by simp
    also have "\<dots> = cell (columns final) (rows final ! i) c"
      unfolding final'_def using i by (rule cell_pd_concat_old)
    finally show "cell (columns built) (rows built ! i) c = cell (columns final) (rows final ! i) c" .
  qed
  have first: "\<And>c. cell (columns built) (rows built ! length (rows final)) c = cell (map fst row4) ys c"
  proof -
    fix c
    have "cell (columns built) (rows built ! length (rows final)) c
            = cell (columns final') (rows final' ! length (rows final)) c"
      using bo len' by simp
    also have "\<dots> = cell (columns d) (rows d ! 0) c"
      unfolding final'_def using cell_pd_concat_new [of 0 d final c] by (simp add: d_def)
    finally show "cell (columns built) (rows built ! length (rows final)) c = cell (map fst row4) ys c"
      by (simp add: d_def)
  qed
  have new: "\<forall>i<length (r # rs).
            built_from name ((r # rs) ! i) (columns built) (rows built ! (length (rows final) + i))"
  proof (intro allI impI)
    fix i assume i: "i < length (r # rs)"
    show "built_from name ((r # rs) ! i) (columns built) (rows built ! (length (rows final) + i))"
    proof (cases i)
      case 0
      then show ?thesis
        using overlay_lookup [of name m p u row] cells m p u
        by (simp add: built_from_def first row4_def cell_fst_snd)
    next
      case (Suc j)
      with i have "j < length rs" by simp
      with bn have "built_from name (rs ! j) (columns built) (rows built ! (length (rows final') + j))"
        by simp
      with Suc len' show ?thesis by simp
    qed
  qed
  from step b bl len' colset old new show ?case by simp
qed


lemma notna_iff: "notna p \<longleftrightarrow> p \<noteq> PNone \<and> p \<noteq> PNaN"
  by (cases p) simp_all

lemma check_headings_ok: "set hs \<subseteq> set header \<Longrightarrow> check_headings hs header = Inr ()"
  by (induction hs) simp_all

lemma select_columns_ok:
  "set labels \<subseteq> set (columns df) \<Longrightarrow>
   select_columns df labels
     = Inr \<lparr>columns = labels, rows = map (reindex_row labels (columns df)) (rows df)\<rparr>"
proof -
  assume "set labels \<subseteq> set (columns df)"
  then have "filter (\<lambda>c. c \<notin> set (columns df)) labels = []" by (auto simp: filter_empty_conv)
  then show ?thesis by (simp add: select_columns_def)
qed

lemma DataFrame_Inr_cells: "DataFrame d = Inr f \<Longrightarrow> \<exists>xs. cells_of (map snd d) = Inr xs"
  by (auto simp: DataFrame_def split: sum.splits)

lemma record_has_key:
  "length r = length header \<Longrightarrow> k \<in> set header \<Longrightarrow> map_of (zip header r) k \<noteq> None"
  by simp

lemma reindex_row_map:
  "reindex_row cols cols (map f cols) = map f cols"
  by (simp add: reindex_row_def cell_def map_of_zip_map)

lemma reindex_row_reindex_row:
  "reindex_row cols cols (reindex_row cols old r) = reindex_row cols old r"
  unfolding reindex_row_def [of cols old r] by (rule reindex_row_map)



lemma select_columns_missing:
  "\<not> set labels \<subseteq> set (columns df) \<Longrightarrow>
   select_columns df labels = Inl (KeyError (filter (\<lambda>c. c \<notin> set (columns df)) labels))"
proof -
  assume "\<not> set labels \<subseteq> set (columns df)"
  then have "filter (\<lambda>c. c \<notin> set (columns df)) labels \<noteq> []" by (auto simp: filter_empty_conv)
  then show ?thesis by (simp add: select_columns_def split: list.splits)
qed

lemma handle_multiple_results_built:
  assumes mr: "fs mr = Some (CsvFile t)" and ci: "fs ci = Some (JsonFile info)"
    and valid: "valid_multiple_artifact t info"
  shows "\<exists>info' built. flatten_tags info = Inr info'
      \<and> results_loop (Some name) info' empty_frame (to_dict_records (df_strip_columns t)) = Inr built
      \<and> set (columns built) = built_keys info
      \<and> length (rows built) = length (rows t)
      \<and> (\<forall>i<length (rows t).
            built_from name (zip (map strip (columns t)) (rows t ! i)) (columns built) (rows built ! i))
      \<and> (\<forall>df. handle_multiple_results df mr (Some ci) (Some name) fs
            = (case select_columns built (columns df) of
                 Inl e \<Rightarrow> (Inl e, fs)
               | Inr sel \<Rightarrow> (Inr (pd_concat df sel), perf_entry_df_to_csv sel fs)))"
proof -
  define header where "header = map strip (columns t)"
  from valid have l3: "length (columns t) = 3" and hs: "set header = set headings"
    and ne: "rows t \<noteq> []" and rl: "\<forall>r\<in>set (rows t). length r = 3"
    by (simp_all add: valid_multiple_artifact_def header_def)
  from valid obtain info' d0 where ft: "flatten_tags info = Inr info'"
    and d0: "DataFrame info' = Inr d0"
    by (auto simp: valid_multiple_artifact_def)
  from d0 obtain xs0 where xs0: "cells_of (map snd info') = Inr xs0"
    using DataFrame_Inr_cells by blast
  from l3 have rd: "read_csv mr fs = Inr t" using mr by (auto simp: read_csv_def)
  have rj: "read_json ci fs = Inr info" using ci by (simp add: read_json_def)
  have ch: "check_headings headings header = Inr ()"
    using hs by (simp add: check_headings_ok)
  define recs where "recs = to_dict_records (df_strip_columns t)"
  have recs_eq: "recs = map (zip header) (rows t)"
    by (simp add: recs_def to_dict_records_def df_strip_columns_def header_def)
  have lh: "length header = 3" using l3 by (simp add: header_def)
  have recs_ok: "\<forall>r\<in>set recs. map_of r ''model'' \<noteq> None \<and> map_of r ''performance'' \<noteq> None
              \<and> map_of r ''metric'' \<noteq> None"
  proof
    fix r assume "r \<in> set recs"
    then obtain x where x: "x \<in> set (rows t)" and r: "r = zip header x" by (auto simp: recs_eq)
    from x rl lh have "length x = length header" by simp
    moreover have "''model'' \<in> set header" "''performance'' \<in> set header" "''metric'' \<in> set header"
      using hs by (simp_all add: headings_def)
    ultimately show "map_of r ''model'' \<noteq> None \<and> map_of r ''performance'' \<noteq> None
              \<and> map_of r ''metric'' \<noteq> None"
      unfolding r by (simp add: record_has_key)
  qed
  have "columns empty_frame = [] \<or> (columns empty_frame = map fst info'
          \<and> set result_keys \<subseteq> set (map fst info'))"
    by (simp add: empty_frame_def)
  from results_loop_rows [OF recs_ok xs0 this, of name]
  obtain built where b: "results_loop (Some name) info' empty_frame recs = Inr built"
    and bl: "length (rows built) = length recs"
    and bc: "recs \<noteq> [] \<longrightarrow> set (columns built) = set (map fst info') \<union> set result_keys"
    and bn: "\<forall>i<length recs. built_from name (recs ! i) (columns built) (rows built ! i)"
    by (auto simp: empty_frame_def)
  from ne have "recs \<noteq> []" by (simp add: recs_eq)
  with bc have keys: "set (columns built) = built_keys info"
    using flatten_tags_keys [OF ft] by (simp add: built_keys_def)
  have bl': "length (rows built) = length (rows t)" by (simp add: bl recs_eq)
  have new: "\<forall>i<length (rows t).
            built_from name (zip header (rows t ! i)) (columns built) (rows built ! i)"
  proof (intro allI impI)
    fix i assume i: "i < length (rows t)"
    then have "i < length recs" by (simp add: recs_eq)
    with bn have "built_from name (recs ! i) (columns built) (rows built ! i)" by simp
    with i show "built_from name (zip header (rows t ! i)) (columns built) (rows built ! i)"
      by (simp add: recs_eq)
  qed
  have res: "\<forall>df. handle_multiple_results df mr (Some ci) (Some name) fs
            = (case select_columns built (columns df) of
                 Inl e \<Rightarrow> (Inl e, fs)
               | Inr sel \<Rightarrow> (Inr (pd_concat df sel), perf_entry_df_to_csv sel fs))"
    using rd lh ch rj ft b
    by (simp add: handle_multiple_results_def Let_def header_def recs_def df_strip_columns_def)
  from ft b keys bl' new res show ?thesis
    unfolding header_def recs_def by blast
qed

text \<open>The two outcomes of the selection, for a valid artifact.\<close>

lemma handle_multiple_results_selected:
  assumes mr: "fs mr = Some (CsvFile t)" and ci: "fs ci = Some (JsonFile info)"
    and valid: "valid_multiple_artifact t info"
    and cov: "set (columns df) \<subseteq> built_keys info"
  shows "\<exists>info' built sel df'. flatten_tags info = Inr info'
      \<and> results_loop (Some name) info' empty_frame (to_dict_records (df_strip_columns t)) = Inr built
      \<and> length (rows built) = length (rows t)
      \<and> (\<forall>i<length (rows t).
            built_from name (zip (map strip (columns t)) (rows t ! i)) (columns built) (rows built ! i))
      \<and> sel = \<lparr>columns = columns df,
                rows = map (reindex_row (columns df) (columns built)) (rows built)\<rparr>
      \<and> handle_multiple_results df mr (Some ci) (Some name) fs
            = (Inr df', perf_entry_df_to_csv sel fs)
      \<and> columns df' = columns df
      \<and> length (rows df') = length (rows df) + length (rows t)
      \<and> drop (length (rows df)) (rows df') = rows sel"
proof -
  from handle_multiple_results_built [OF mr ci valid, of name]
  obtain info' built where ft: "flatten_tags info = Inr info'"
    and b: "results_loop (Some name) info' empty_frame (to_dict_records (df_strip_columns t)) = Inr built"
    and keys: "set (columns built) = built_keys info"
    and bl: "length (rows built) = length (rows t)"
    and bn: "\<forall>i<length (rows t).
            built_from name (zip (map strip (columns t)) (rows t ! i)) (columns built) (rows built ! i)"
    and res: "\<forall>df. handle_multiple_results df mr (Some ci) (Some name) fs
            = (case select_columns built (columns df) of
                 Inl e \<Rightarrow> (Inl e, fs)
               | Inr sel \<Rightarrow> (Inr (pd_concat df sel), perf_entry_df_to_csv sel fs))"
    by blast
  define sel where "sel = \<lparr>columns = columns df,
      rows = map (reindex_row (columns df) (columns built)) (rows built)\<rparr>"
  define df' where "df' = pd_concat df sel"
  from cov keys have "set (columns df) \<subseteq> set (columns built)" by simp
  then have se: "select_columns built (columns df) = Inr sel"
    using select_columns_ok by (simp add: sel_def)
  have r: "handle_multiple_results df mr (Some ci) (Some name) fs
            = (Inr df', perf_entry_df_to_csv sel fs)"
    using res se by (simp add: df'_def)
  have c: "columns df' = columns df" by (simp add: df'_def columns_pd_concat sel_def)
  have l: "length (rows df') = length (rows df) + length (rows t)"
    by (simp add: df'_def length_rows_pd_concat sel_def bl)
  have d: "drop (length (rows df)) (rows df') = rows sel"
    by (simp add: df'_def pd_concat_def Let_def sel_def reindex_row_reindex_row)
  from ft b bl bn r c l d sel_def show ?thesis by blast
qed

lemma handle_multiple_results_KeyError:
  assumes mr: "fs mr = Some (CsvFile t)" and ci: "fs ci = Some (JsonFile info)"
    and valid: "valid_multiple_artifact t info"
    and ncov: "\<not> set (columns df) \<subseteq> built_keys info"
  shows "handle_multiple_results df mr (Some ci) (Some name) fs
           = (Inl (KeyError (filter (\<lambda>c. c \<notin> built_keys info) (columns df))), fs)"
proof -
  from handle_multiple_results_built [OF mr ci valid, of name]
  obtain built :: dataframe where keys: "set (columns built) = built_keys info"
    and res: "\<forall>df. handle_multiple_results df mr (Some ci) (Some name) fs
            = (case select_columns built (columns df) of
                 Inl e \<Rightarrow> (Inl e, fs)
               | Inr sel \<Rightarrow> (Inr (pd_concat df sel), perf_entry_df_to_csv sel fs))"
    by blast
  from ncov keys have "\<not> set (columns df) \<subseteq> set (columns built)" by simp
  then have "select_columns built (columns df)
      = Inl (KeyError (filter (\<lambda>c. c \<notin> set (columns built)) (columns df)))"
    by (rule select_columns_missing)
  with res keys show ?thesis by simp
qed

lemma built_from_zip:
  "length r = length header \<Longrightarrow> built_from name (zip header r) cols x \<longleftrightarrow>
     cell cols x ''model'' = PStr (name @ ''_'' @ str (cell header r ''model''))
   \<and> cell cols x ''performance'' = cell header r ''performance''
   \<and> cell cols x ''metric'' = cell header r ''metric''
   \<and> cell cols x ''status''
       = PStr (if notna (cell header r ''performance'') then ''SUCCESS'' else ''FAILURE'')"
  by (simp add: built_from_def)

lemma strip_plain [simp]: "strip ''model'' = ''model''" "strip ''performance'' = ''performance''"
  "strip ''metric'' = ''metric''"
  by (simp_all add: strip_def isspace_def)

lemma scenario_loop:
  "results_loop (Some ''suite1'') [(''pipeline'', Scalar (PStr ''p1'')), (''tags'', Scalar (PStr ''x,y''))]
      empty_frame (to_dict_records (df_strip_columns scenario_results))
     = Inr \<lparr>columns = scenario_keys, rows = [scenario_row_A, scenario_row_B]\<rparr>"
  by (simp add: scenario_results_def to_dict_records_def df_strip_columns_def Let_def DataFrame_def
      empty_frame_def pd_concat_def reindex_row_def cell_def scenario_keys_def scenario_row_A_def
      scenario_row_B_def)

lemma scenario_flatten:
  "flatten_tags scenario_common_info
     = Inr [(''pipeline'', Scalar (PStr ''p1'')), (''tags'', Scalar (PStr ''x,y''))]"
  by (simp add: flatten_tags_def scenario_common_info_def)

lemma handle_exception_result_is_single:
  "handle_exception_result df p fs = handle_single_result df p fs"
  by (simp add: handle_exception_result_def handle_single_result_def)

lemma length_reindex_row [simp]: "length (reindex_row new old r) = length new"
  by (simp add: reindex_row_def)

lemma pd_concat_row_lengths:
  "\<forall>r\<in>set (rows (pd_concat a b)). length r = length (columns (pd_concat a b))"
  by (auto simp: rows_pd_concat)

lemma cell_map_csv_field: "cell cols (map csv_field r) c = csv_field (cell cols r c)"
proof -
  have "map_of (zip cols (map csv_field r)) c = map_option csv_field (map_of (zip cols r) c)"
    by (simp add: zip_map2 map_of_map [unfolded o_def, simplified] split_def)
       (metis (no_types, lifting) map_of_map comp_apply map_eq_conv split_def prod.collapse)
  then show ?thesis by (simp add: cell_def split: option.splits)
qed

lemma select_columns_columns: "select_columns df labels = Inr sel \<Longrightarrow> columns sel = labels"
  by (auto simp: select_columns_def split: list.splits)

lemma handle_multiple_results_columns:
  assumes "handle_multiple_results df mr ci mn fs = (Inr df', fs')"
  shows "columns df' = columns df"
proof -
  from assms obtain built sel where s: "select_columns built (columns df) = Inr sel"
    and d: "df' = pd_concat df sel"
    by (auto simp: handle_multiple_results_def Let_def split: sum.splits if_splits option.splits)
  from s have "columns sel = columns df" by (rule select_columns_columns)
  with d show ?thesis by (simp add: columns_pd_concat)
qed

lemma handle_multiple_results_concat:
  assumes "handle_multiple_results df mr ci mn fs = (Inr df', fs')"
  shows "\<exists>sel. df' = pd_concat df sel"
  using assms
  by (auto simp: handle_multiple_results_def Let_def split: sum.splits if_splits option.splits)

lemma handle_single_result_concat:
  assumes "handle_single_result df p fs = (Inr df', fs')"
  shows "\<exists>j (j'::dict) xs. fs p = Some (JsonFile j) \<and> map fst j' = map fst j
      \<and> df' = pd_concat df \<lparr>columns = map fst j', rows = [xs]\<rparr>"
proof -
  from assms obtain j where rj: "read_json p fs = Inr j"
    by (auto simp: handle_single_result_def split: sum.splits)
  then have fj: "fs p = Some (JsonFile j)"
    by (auto simp: read_json_def split: option.splits file_content.splits)
  from assms rj obtain j' d where ft: "flatten_tags j = Inr j'" and fr: "DataFrame j' = Inr d"
    and res: "df' = pd_concat df d"
    by (auto simp: handle_single_result_def perf_entry_dict_to_csv_def split: sum.splits)
  from fr obtain xs where "d = \<lparr>columns = map fst j', rows = [xs]\<rparr>"
    by (auto simp: DataFrame_def split: sum.splits)
  with fj flatten_tags_keys [OF ft] res show ?thesis by blast
qed

lemma check_headings_missing:
  "filter (\<lambda>h. h \<notin> set header) hs \<noteq> [] \<Longrightarrow>
   check_headings hs header
     = Inl (RuntimeError (''Multiple Results CSV file is missing the ''
              @ hd (filter (\<lambda>h. h \<notin> set header) hs) @ '' column''))"
  by (induction hs) auto

lemma three_headings:
  assumes "length header = 3" and "set headings \<subseteq> set header"
  shows "set header = set headings"
proof -
  have "card (set headings) = 3" by (simp add: headings_def)
  moreover have "card (set header) \<le> 3" using assms(1) card_length [of header] by simp
  ultimately have "card (set header) \<le> card (set headings)" by simp
  with assms(2) have "set headings = set header" by (intro card_seteq) simp_all
  then show ?thesis by simp
qed

section \<open>The process runner on a failed command\<close>

lemma sh_can_fail: "sh command True secret (Exited outs returncode) = Inr (strip outs)"
  by (simp add: sh_def)

lemma sh_failure_names_command:
  "returncode \<noteq> 0 \<Longrightarrow> \<not> secret_truthy secret \<Longrightarrow>
   sh command False secret (Exited outs returncode)
     = Inl (RuntimeError (''Subprocess '' @ quote @ command @ quote
             @ '' failed with exit code '' @ str_int returncode))"
  by (simp add: sh_def)

lemma sh_failure_names_secret_string:
  "returncode \<noteq> 0 \<Longrightarrow> s \<noteq> [] \<Longrightarrow>
   sh command False (SecretStr s) (Exited outs returncode)
     = Inl (RuntimeError (''Subprocess '' @ quote @ s @ quote
             @ '' failed with exit code '' @ str_int returncode))"
  by (simp add: sh_def)

text \<open>
  C9. With \<^verbatim>\<open>can_fail\<close> false and \<^verbatim>\<open>secret\<close> set, a command that exits with a
  nonzero code should raise an error that carries a placeholder and the exit code. With
  \<^verbatim>\<open>secret=True\<close>, the value its annotation and docstring ask for, the message is built
  by concatenating a string and a bool: the call raises \<^verbatim>\<open>TypeError\<close>, which carries
  neither.
\<close>

theorem sh_secret_flag_raises_TypeError:
  "sh ''exit 3'' False (SecretBool True) (Exited ''out'' 3) = Inl TypeError"
  by (simp add: sh_def)

section \<open>Flattening twice\<close>

text \<open>
  C8. \<^verbatim>\<open>flatten_tags\<close> leaves a record unchanged when its tags are already a string (or
  any scalar); it replaces a list of tags by the string that joins its elements with
  commas and changes nothing else; and flattening the flattened record gives it back, so
  flattening twice is flattening once (a record without tags raises both times).
\<close>

theorem flatten_tags_idempotent:
  "(map_of d ''tags'' = Some (Scalar v) \<longrightarrow> flatten_tags d = Inr d)
   \<and> (map_of d ''tags'' = Some (JList items) \<longrightarrow>
        (\<exists>d'. flatten_tags d = Inr d' \<and> map fst d' = map fst d
           \<and> map_of d' = (map_of d)(''tags'' \<mapsto> Scalar (PStr (join '','' (map str items))))))
   \<and> (case flatten_tags d of Inl e \<Rightarrow> Inl e | Inr d' \<Rightarrow> flatten_tags d') = flatten_tags d"
proof (intro conjI impI)
  assume "map_of d ''tags'' = Some (Scalar v)"
  then show "flatten_tags d = Inr d" by (simp add: flatten_tags_def)
next
  assume h: "map_of d ''tags'' = Some (JList items)"
  then have "''tags'' \<in> set (map fst d)" by (rule map_of_Some_key)
  with h show "\<exists>d'. flatten_tags d = Inr d' \<and> map fst d' = map fst d
           \<and> map_of d' = (map_of d)(''tags'' \<mapsto> Scalar (PStr (join '','' (map str items))))"
    by (simp add: flatten_tags_def update_conv' update_keys)
next
  show "(case flatten_tags d of Inl e \<Rightarrow> Inl e | Inr d' \<Rightarrow> flatten_tags d') = flatten_tags d"
  proof (cases "flatten_tags d")
    case (Inl e)
    then show ?thesis by simp
  next
    case (Inr d')
    then obtain w where "map_of d' ''tags'' = Some (Scalar w)"
      using flatten_tags_tags_scalar by blast
    then have "flatten_tags d' = Inr d'" by (simp add: flatten_tags_def)
    with Inr show ?thesis by simp
  qed
qed

theorem flatten_tags_idempotent_witness:
  "flatten_tags [(''model'', Scalar (PStr ''m'')), (''tags'', JList [PStr ''a'', PStr ''b''])]
     = Inr [(''model'', Scalar (PStr ''m'')), (''tags'', Scalar (PStr ''a,b''))]
   \<and> flatten_tags [(''model'', Scalar (PStr ''m'')), (''tags'', Scalar (PStr ''a,b''))]
     = Inr [(''model'', Scalar (PStr ''m'')), (''tags'', Scalar (PStr ''a,b''))]"
  using
    flatten_tags_idempotent [of "[(''model'', Scalar (PStr ''m'')), (''tags'', Scalar (PStr ''a,b''))]"
      "PStr ''a,b''" "[]"]
    flatten_tags_idempotent [of "[(''model'', Scalar (PStr ''m'')), (''tags'', JList [PStr ''a'', PStr ''b''])]"
      "PNone" "[PStr ''a'', PStr ''b'']"]
  by (simp add: flatten_tags_def)

section \<open>The exception path and the single path\<close>

text \<open>
  C10. \<^verbatim>\<open>handle_exception_result\<close> and \<^verbatim>\<open>handle_single_result\<close> are the same
  transform: on every report table, artifact path and file system they give the same
  outcome, the same table and the same files. The exception path does not set the
  status: when it succeeds, the status cell of the row it appends is the status of the
  artifact.
\<close>

theorem handle_exception_result_eq_single:
  "handle_exception_result df p fs = handle_single_result df p fs
   \<and> (\<forall>df' fs' j v. handle_exception_result df p fs = (Inr df', fs') \<and> fs p = Some (JsonFile j)
          \<and> map_of j ''status'' = Some (Scalar v)
        \<longrightarrow> rows df' \<noteq> [] \<and> cell (columns df') (last (rows df')) ''status'' = v)"
proof (rule conjI)
  show "handle_exception_result df p fs = handle_single_result df p fs"
    by (simp add: handle_exception_result_def handle_single_result_def)
next
  show "\<forall>df' fs' j v. handle_exception_result df p fs = (Inr df', fs') \<and> fs p = Some (JsonFile j)
          \<and> map_of j ''status'' = Some (Scalar v)
        \<longrightarrow> rows df' \<noteq> [] \<and> cell (columns df') (last (rows df')) ''status'' = v"
  proof (intro allI impI)
    fix df' fs' j v
    assume a: "handle_exception_result df p fs = (Inr df', fs') \<and> fs p = Some (JsonFile j)
          \<and> map_of j ''status'' = Some (Scalar v)"
    then have rj: "read_json p fs = Inr j" by (simp add: read_json_def)
    from a rj obtain j' d where ft: "flatten_tags j = Inr j'" and fr: "DataFrame j' = Inr d"
      and res: "df' = pd_concat df d"
      by (auto simp: handle_exception_result_def perf_entry_dict_to_csv_def split: sum.splits)
    from ft a have st: "map_of j' ''status'' = Some (Scalar v)"
      by (simp add: flatten_tags_other_keys)
    from DataFrame_cell [OF fr st] obtain xs where cd: "columns d = map fst j'"
      and rd: "rows d = [xs]" and cx: "cell (map fst j') xs ''status'' = v" by blast
    from st have "''status'' \<in> set (map fst j')" by (rule map_of_Some_key)
    then have "''status'' \<in> set (columns df')" by (simp add: res set_columns_pd_concat cd)
    then show "rows df' \<noteq> [] \<and> cell (columns df') (last (rows df')) ''status'' = v"
      by (simp add: res rows_pd_concat rd cell_reindex_row cd cx)
  qed
qed

theorem handle_exception_result_eq_single_witness:
  "handle_exception_result \<lparr>columns = [''model'', ''status''], rows = []\<rparr> ''e.json''
       [''e.json'' \<mapsto> JsonFile exception_json]
     = (Inr \<lparr>columns = [''model'', ''status'', ''tags''],
             rows = [[PStr ''m'', PStr ''SUCCESS'', PStr ''t'']]\<rparr>,
        [''e.json'' \<mapsto> JsonFile exception_json,
         ''perf_entry.csv'' \<mapsto> CsvFile \<lparr>columns = [''model'', ''tags'', ''status''],
             rows = [[PStr ''m'', PStr ''t'', PStr ''SUCCESS'']]\<rparr>])
   \<and> cell [''model'', ''status'', ''tags''] (last [[PStr ''m'', PStr ''SUCCESS'', PStr ''t'']]) ''status''
       = PStr ''SUCCESS''"
  using handle_exception_result_eq_single [of "\<lparr>columns = [''model'', ''status''], rows = []\<rparr>"
      "''e.json''" "[''e.json'' \<mapsto> JsonFile exception_json]"]
  by (simp add: handle_single_result_def read_json_def perf_entry_dict_to_csv_def flatten_tags_def
      DataFrame_def pd_concat_def reindex_row_def cell_def perf_entry_df_to_csv_def to_csv_def
      exception_json_def)

section \<open>Dispatch\<close>

text \<open>
  C7, as the claim states it: only \<^verbatim>\<open>failed_result\<close> is given, and the report file
  exists but is empty. The report is read before the arguments are looked at; the call
  raises the error of the read, not the missing-argument error.
\<close>

theorem update_perf_csv_only_failed_result_empty_report:
  "update_perf_csv None None (Some ''failed.json'') None ''perf.csv'' None None
       [''perf.csv'' \<mapsto> CsvFile \<lparr>columns = [], rows = []\<rparr>]
     = (Inl EmptyDataError, [''perf.csv'' \<mapsto> CsvFile \<lparr>columns = [], rows = []\<rparr>])
   \<and> EmptyDataError \<noteq> RuntimeError
         ''At least one of the following must be provided: single_result, exception_result, failed_result, multiple_results''"
  by (simp add: update_perf_csv_def load_perf_csv_def read_csv_def)

text \<open>
  C7, amended. \<^verbatim>\<open>update_perf_csv\<close> first loads the report table; when the report
  file exists and cannot be read, the call raises the error of the read, whatever the
  arguments are. Once the table is loaded, it takes the multiple-results path when
  \<^verbatim>\<open>multiple_results\<close> is given, whatever the other arguments are; else the
  single-result path when \<^verbatim>\<open>single_result\<close> is given; else the exception path when
  \<^verbatim>\<open>exception_result\<close> is given; else it raises the missing-argument error.
  \<^verbatim>\<open>failed_result\<close> is never read: the outcome is the one of the call without it, so
  a call that gives only \<^verbatim>\<open>failed_result\<close> raises the missing-argument error once
  the table is loaded. When none of the three is given the call fails and writes nothing,
  whether the report loads or not.
\<close>

theorem update_perf_csv_dispatch:
  "(load_perf_csv perf_csv fs = Inl e \<longrightarrow>
      update_perf_csv sr er fr mr perf_csv mn ci fs = (Inl e, fs))
   \<and> (load_perf_csv perf_csv fs = Inr df \<longrightarrow>
        (truthy mr \<longrightarrow>
            update_perf_csv sr er fr mr perf_csv mn ci fs =
              (case handle_multiple_results df (the mr) ci mn fs of
                 (Inl e, fs') \<Rightarrow> (Inl e, fs')
               | (Inr df', fs') \<Rightarrow> (Inr (), to_csv df' perf_csv fs')))
      \<and> (\<not> truthy mr \<and> truthy sr \<longrightarrow>
            update_perf_csv sr er fr mr perf_csv mn ci fs =
              (case handle_single_result df (the sr) fs of
                 (Inl e, fs') \<Rightarrow> (Inl e, fs')
               | (Inr df', fs') \<Rightarrow> (Inr (), to_csv df' perf_csv fs')))
      \<and> (\<not> truthy mr \<and> \<not> truthy sr \<and> truthy er \<longrightarrow>
            update_perf_csv sr er fr mr perf_csv mn ci fs =
              (case handle_exception_result df (the er) fs of
                 (Inl e, fs') \<Rightarrow> (Inl e, fs')
               | (Inr df', fs') \<Rightarrow> (Inr (), to_csv df' perf_csv fs')))
      \<and> (\<not> truthy mr \<and> \<not> truthy sr \<and> \<not> truthy er \<longrightarrow>
            update_perf_csv sr er fr mr perf_csv mn ci fs =
              (Inl (RuntimeError
                ''At least one of the following must be provided: single_result, exception_result, failed_result, multiple_results''),
               fs)))
   \<and> update_perf_csv sr er fr mr perf_csv mn ci fs
       = update_perf_csv sr er None mr perf_csv mn ci fs
   \<and> (\<not> truthy mr \<and> \<not> truthy sr \<and> \<not> truthy er \<longrightarrow>
        (\<exists>x. update_perf_csv sr er fr mr perf_csv mn ci fs = (Inl x, fs)))"
proof (intro conjI impI)
  show "update_perf_csv sr er fr mr perf_csv mn ci fs
       = update_perf_csv sr er None mr perf_csv mn ci fs"
    by (simp add: update_perf_csv_def)
next
  assume "\<not> truthy mr \<and> \<not> truthy sr \<and> \<not> truthy er"
  then show "\<exists>x. update_perf_csv sr er fr mr perf_csv mn ci fs = (Inl x, fs)"
    by (cases "load_perf_csv perf_csv fs") (simp_all add: update_perf_csv_def)
qed (simp_all add: update_perf_csv_def)

theorem update_perf_csv_dispatch_witness:
  "load_perf_csv ''perf.csv'' Map.empty = Inr \<lparr>columns = report_columns, rows = []\<rparr>
   \<and> update_perf_csv None None (Some ''failed.json'') None ''perf.csv'' None None Map.empty =
       (Inl (RuntimeError
          ''At least one of the following must be provided: single_result, exception_result, failed_result, multiple_results''),
        Map.empty)
   \<and> load_perf_csv ''perf.csv'' [''perf.csv'' \<mapsto> JsonFile []] = Inl ParserError
   \<and> update_perf_csv (Some ''r.json'') None None None ''perf.csv'' None None
        [''perf.csv'' \<mapsto> JsonFile []]
       = (Inl ParserError, [''perf.csv'' \<mapsto> JsonFile []])"
proof -
  have h: "load_perf_csv ''perf.csv'' Map.empty = Inr \<lparr>columns = report_columns, rows = []\<rparr>"
    by (simp add: load_perf_csv_def)
  have g: "load_perf_csv ''perf.csv'' [''perf.csv'' \<mapsto> JsonFile []] = Inl ParserError"
    by (simp add: load_perf_csv_def read_csv_def)
  show ?thesis
    using h g
      update_perf_csv_dispatch [of "''perf.csv''" Map.empty ParserError None None
        "Some ''failed.json''" None None None "\<lparr>columns = report_columns, rows = []\<rparr>"]
      update_perf_csv_dispatch [of "''perf.csv''" "[''perf.csv'' \<mapsto> JsonFile []]" ParserError
        "Some ''r.json''" None None None None None "\<lparr>columns = report_columns, rows = []\<rparr>"]
    by simp
qed

section \<open>The multiple-results path\<close>

text \<open>
  C2, as the claim states it: the artifact of the scenario is valid and has two rows, and
  it is processed against the table of the twenty report columns. The common information
  lacks fourteen of them; the call raises \<^verbatim>\<open>KeyError\<close> and appends no row.
\<close>

theorem handle_multiple_results_valid_not_appended:
  "valid_multiple_artifact scenario_results scenario_common_info
   \<and> length (rows scenario_results) = 2
   \<and> handle_multiple_results \<lparr>columns = report_columns, rows = []\<rparr> ''multiple_results.csv''
        (Some ''common_info.json'') (Some ''suite1'') scenario_fs
       = (Inl (KeyError [''args'', ''docker_file'', ''base_docker'', ''docker_sha'', ''docker_image'',
                         ''machine_name'', ''host_os'', ''gpu_architecture'', ''n_gpus'',
                         ''training_precision'', ''build_duration'', ''test_duration'',
                         ''git_commit'', ''relative_change'']),
          scenario_fs)"
proof -
  have v: "valid_multiple_artifact scenario_results scenario_common_info"
    by (simp add: valid_multiple_artifact_def scenario_results_def scenario_common_info_def
        headings_def flatten_tags_def DataFrame_def)
  have r: "read_csv ''multiple_results.csv'' scenario_fs = Inr scenario_results"
    by (simp add: read_csv_def scenario_fs_def scenario_results_def)
  have j: "read_json ''common_info.json'' scenario_fs = Inr scenario_common_info"
    by (simp add: read_json_def scenario_fs_def)
  have c: "check_headings headings (columns (df_strip_columns scenario_results)) = Inr ()"
    by (simp add: headings_def df_strip_columns_def scenario_results_def)
  have n: "length (columns (df_strip_columns scenario_results)) = 3"
    by (simp add: df_strip_columns_def scenario_results_def)
  have s: "select_columns \<lparr>columns = scenario_keys, rows = [scenario_row_A, scenario_row_B]\<rparr> report_columns
     = Inl (KeyError [''args'', ''docker_file'', ''base_docker'', ''docker_sha'', ''docker_image'',
                       ''machine_name'', ''host_os'', ''gpu_architecture'', ''n_gpus'',
                       ''training_precision'', ''build_duration'', ''test_duration'',
                       ''git_commit'', ''relative_change''])"
    by (simp add: select_columns_def scenario_keys_def report_columns_def)
  have h: "handle_multiple_results \<lparr>columns = report_columns, rows = []\<rparr> ''multiple_results.csv''
        (Some ''common_info.json'') (Some ''suite1'') scenario_fs
       = (Inl (KeyError [''args'', ''docker_file'', ''base_docker'', ''docker_sha'', ''docker_image'',
                         ''machine_name'', ''host_os'', ''gpu_architecture'', ''n_gpus'',
                         ''training_precision'', ''build_duration'', ''test_duration'',
                         ''git_commit'', ''relative_change'']),
          scenario_fs)"
    by (simp add: handle_multiple_results_def r j c n Let_def scenario_flatten scenario_loop s)
  from v h show ?thesis by (simp add: scenario_results_def)
qed

text \<open>
  C2, amended. For every valid multi-row artifact, what \<^verbatim>\<open>handle_multiple_results\<close>
  does depends on the columns of the report table. When every column of the table is a
  key of the common information or one of model, performance, metric and status, and the
  table has a model column, the call succeeds: the table it returns has the columns of
  the report and as many rows more than the report as the results table has rows, and
  the model of the i-th row appended is the prefix, an underscore and the model of the
  i-th result row. When the table has a column that is none of these keys, the call
  raises \<^verbatim>\<open>KeyError\<close> with those columns, appends no row and writes no file.
\<close>

theorem handle_multiple_results_appends:
  assumes "fs mr = Some (CsvFile t)" and "fs ci = Some (JsonFile info)"
    and "valid_multiple_artifact t info"
  shows "(set (columns df) \<subseteq> built_keys info \<and> ''model'' \<in> set (columns df) \<longrightarrow>
            (\<exists>df' fs'. handle_multiple_results df mr (Some ci) (Some name) fs = (Inr df', fs')
               \<and> columns df' = columns df
               \<and> length (rows df') = length (rows df) + length (rows t)
               \<and> (\<forall>i<length (rows t).
                     cell (columns df') (rows df' ! (length (rows df) + i)) ''model''
                       = PStr (name @ ''_'' @ str (cell (map strip (columns t)) (rows t ! i) ''model'')))))
       \<and> (\<not> set (columns df) \<subseteq> built_keys info \<longrightarrow>
            handle_multiple_results df mr (Some ci) (Some name) fs
              = (Inl (KeyError (filter (\<lambda>c. c \<notin> built_keys info) (columns df))), fs))"
proof (intro conjI impI)
  assume "\<not> set (columns df) \<subseteq> built_keys info"
  then show "handle_multiple_results df mr (Some ci) (Some name) fs
              = (Inl (KeyError (filter (\<lambda>c. c \<notin> built_keys info) (columns df))), fs)"
    by (rule handle_multiple_results_KeyError [OF assms])
next
  assume a: "set (columns df) \<subseteq> built_keys info \<and> ''model'' \<in> set (columns df)"
  then have cov: "set (columns df) \<subseteq> built_keys info" and m: "''model'' \<in> set (columns df)"
    by simp_all
  from handle_multiple_results_selected [OF assms cov, of name]
  obtain built :: dataframe and sel df' where bl: "length (rows built) = length (rows t)"
    and bn: "\<forall>i<length (rows t).
            built_from name (zip (map strip (columns t)) (rows t ! i)) (columns built) (rows built ! i)"
    and sel: "sel = \<lparr>columns = columns df,
                rows = map (reindex_row (columns df) (columns built)) (rows built)\<rparr>"
    and res: "handle_multiple_results df mr (Some ci) (Some name) fs
            = (Inr df', perf_entry_df_to_csv sel fs)"
    and c: "columns df' = columns df"
    and l: "length (rows df') = length (rows df) + length (rows t)"
    and d: "drop (length (rows df)) (rows df') = rows sel"
    by blast
  have "\<forall>i<length (rows t).
            cell (columns df') (rows df' ! (length (rows df) + i)) ''model''
              = PStr (name @ ''_'' @ str (cell (map strip (columns t)) (rows t ! i) ''model''))"
  proof (intro allI impI)
    fix i assume i: "i < length (rows t)"
    from assms(3) i have len: "length (rows t ! i) = length (map strip (columns t))"
      by (simp add: valid_multiple_artifact_def)
    from bn i have bf: "built_from name (zip (map strip (columns t)) (rows t ! i))
        (columns built) (rows built ! i)" by blast
    have "rows df' ! (length (rows df) + i) = drop (length (rows df)) (rows df') ! i"
      using i l by simp
    also have "\<dots> = reindex_row (columns df) (columns built) (rows built ! i)"
      using i bl by (simp add: d sel)
    finally have "cell (columns df') (rows df' ! (length (rows df) + i)) ''model''
        = cell (columns built) (rows built ! i) ''model''"
      using m by (simp add: c cell_reindex_row)
    also from bf have "\<dots> = PStr (name @ ''_'' @ str (cell (map strip (columns t)) (rows t ! i) ''model''))"
      unfolding built_from_zip [OF len] by blast
    finally show "cell (columns df') (rows df' ! (length (rows df) + i)) ''model''
              = PStr (name @ ''_'' @ str (cell (map strip (columns t)) (rows t ! i) ''model''))" .
  qed
  with res c l
  show "\<exists>df' fs'. handle_multiple_results df mr (Some ci) (Some name) fs = (Inr df', fs')
               \<and> columns df' = columns df
               \<and> length (rows df') = length (rows df) + length (rows t)
               \<and> (\<forall>i<length (rows t).
                     cell (columns df') (rows df' ! (length (rows df) + i)) ''model''
                       = PStr (name @ ''_'' @ str (cell (map strip (columns t)) (rows t ! i) ''model'')))"
    by blast
qed

theorem handle_multiple_results_appends_witness:
  "scenario_fs ''multiple_results.csv'' = Some (CsvFile scenario_results)
   \<and> scenario_fs ''common_info.json'' = Some (JsonFile scenario_common_info)
   \<and> valid_multiple_artifact scenario_results scenario_common_info
   \<and> (\<exists>df' fs'. handle_multiple_results
          \<lparr>columns = [''model'', ''status'', ''tags''], rows = [[PStr ''old'', PStr ''SUCCESS'', PNaN]]\<rparr>
          ''multiple_results.csv'' (Some ''common_info.json'') (Some ''suite1'') scenario_fs = (Inr df', fs')
        \<and> columns df' = [''model'', ''status'', ''tags'']
        \<and> length (rows df') = 3
        \<and> cell (columns df') (rows df' ! 1) ''model'' = PStr ''suite1_A''
        \<and> cell (columns df') (rows df' ! 2) ''model'' = PStr ''suite1_B'')
   \<and> handle_multiple_results \<lparr>columns = [''model'', ''args''], rows = []\<rparr>
          ''multiple_results.csv'' (Some ''common_info.json'') (Some ''suite1'') scenario_fs
        = (Inl (KeyError [''args'']), scenario_fs)"
proof -
  let ?df = "\<lparr>columns = [''model'', ''status'', ''tags''], rows = [[PStr ''old'', PStr ''SUCCESS'', PNaN]]\<rparr>"
  let ?dg = "\<lparr>columns = [''model'', ''args''], rows = []\<rparr> :: dataframe"
  have h1: "scenario_fs ''multiple_results.csv'' = Some (CsvFile scenario_results)"
    by (simp add: scenario_fs_def)
  have h2: "scenario_fs ''common_info.json'' = Some (JsonFile scenario_common_info)"
    by (simp add: scenario_fs_def)
  have h3: "valid_multiple_artifact scenario_results scenario_common_info"
    by (simp add: valid_multiple_artifact_def scenario_results_def scenario_common_info_def
        headings_def flatten_tags_def DataFrame_def)
  have k: "built_keys scenario_common_info = set scenario_keys"
    by (auto simp: built_keys_def scenario_common_info_def result_keys_def scenario_keys_def)
  have h4: "set (columns ?df) \<subseteq> built_keys scenario_common_info \<and> ''model'' \<in> set (columns ?df)"
    unfolding k by (simp add: scenario_keys_def)
  have h5: "\<not> set (columns ?dg) \<subseteq> built_keys scenario_common_info"
    unfolding k by (simp add: scenario_keys_def)
  from handle_multiple_results_appends [OF h1 h2 h3, of ?df "''suite1''"] h4
  obtain df' fs' where
    res: "handle_multiple_results ?df ''multiple_results.csv'' (Some ''common_info.json'') (Some ''suite1'')
       scenario_fs = (Inr df', fs')"
    and c: "columns df' = columns ?df"
    and l: "length (rows df') = length (rows ?df) + length (rows scenario_results)"
    and new: "\<forall>i<length (rows scenario_results).
            cell (columns df') (rows df' ! (length (rows ?df) + i)) ''model''
              = PStr (''suite1'' @ ''_'' @ str (cell (map strip (columns scenario_results)) (rows scenario_results ! i) ''model''))"
    by blast
  from res c l new [rule_format, of 0] new [rule_format, of 1]
  have a: "handle_multiple_results ?df ''multiple_results.csv'' (Some ''common_info.json'') (Some ''suite1'')
       scenario_fs = (Inr df', fs')
        \<and> columns df' = [''model'', ''status'', ''tags'']
        \<and> length (rows df') = 3
        \<and> cell (columns df') (rows df' ! 1) ''model'' = PStr ''suite1_A''
        \<and> cell (columns df') (rows df' ! 2) ''model'' = PStr ''suite1_B''"
    by (simp add: scenario_results_def cell_def numeral_2_eq_2)
  from handle_multiple_results_appends [OF h1 h2 h3, of ?dg "''suite1''"] h5
  have b: "handle_multiple_results ?dg ''multiple_results.csv'' (Some ''common_info.json'')
      (Some ''suite1'') scenario_fs = (Inl (KeyError [''args'']), scenario_fs)"
    unfolding k by (simp add: scenario_keys_def)
  from h1 h2 h3 a b show ?thesis by blast
qed

text \<open>
  C3. The loop of \<^verbatim>\<open>handle_multiple_results\<close>, on records that have the three
  columns and a common information that makes a frame, builds one row for every record;
  the performance of that row is the performance of the record, and its status is
  \<^verbatim>\<open>SUCCESS\<close> exactly when that performance is neither None nor NaN, and
  \<^verbatim>\<open>FAILURE\<close> exactly when it is one of them.
\<close>

theorem results_loop_status:
  assumes "\<forall>r\<in>set recs. map_of r ''model'' \<noteq> None \<and> map_of r ''performance'' \<noteq> None
              \<and> map_of r ''metric'' \<noteq> None"
    and "cells_of (map snd common_info_json) = Inr xs"
  shows "\<exists>built. results_loop (Some name) common_info_json empty_frame recs = Inr built
      \<and> length (rows built) = length recs
      \<and> (\<forall>i<length recs. \<forall>p. map_of (recs ! i) ''performance'' = Some p \<longrightarrow>
            cell (columns built) (rows built ! i) ''performance'' = p
          \<and> (cell (columns built) (rows built ! i) ''status'' = PStr ''SUCCESS''
               \<longleftrightarrow> p \<noteq> PNone \<and> p \<noteq> PNaN)
          \<and> (cell (columns built) (rows built ! i) ''status'' = PStr ''FAILURE''
               \<longleftrightarrow> p = PNone \<or> p = PNaN))"
proof -
  have "columns empty_frame = [] \<or> (columns empty_frame = map fst common_info_json
          \<and> set result_keys \<subseteq> set (map fst common_info_json))"
    by (simp add: empty_frame_def)
  from results_loop_rows [OF assms this, of name]
  obtain built where b: "results_loop (Some name) common_info_json empty_frame recs = Inr built"
    and bl: "length (rows built) = length recs"
    and bn: "\<forall>i<length recs. built_from name (recs ! i) (columns built) (rows built ! i)"
    by (auto simp: empty_frame_def)
  have "\<forall>i<length recs. \<forall>p. map_of (recs ! i) ''performance'' = Some p \<longrightarrow>
            cell (columns built) (rows built ! i) ''performance'' = p
          \<and> (cell (columns built) (rows built ! i) ''status'' = PStr ''SUCCESS''
               \<longleftrightarrow> p \<noteq> PNone \<and> p \<noteq> PNaN)
          \<and> (cell (columns built) (rows built ! i) ''status'' = PStr ''FAILURE''
               \<longleftrightarrow> p = PNone \<or> p = PNaN)"
  proof (intro allI impI)
    fix i p assume i: "i < length recs" and p: "map_of (recs ! i) ''performance'' = Some p"
    from bn i have "built_from name (recs ! i) (columns built) (rows built ! i)" by blast
    then have "cell (columns built) (rows built ! i) ''performance'' = p
      \<and> cell (columns built) (rows built ! i) ''status''
        = PStr (if notna p then ''SUCCESS'' else ''FAILURE'')"
      using p by (simp add: built_from_def cell_fst_snd)
    then show "cell (columns built) (rows built ! i) ''performance'' = p
          \<and> (cell (columns built) (rows built ! i) ''status'' = PStr ''SUCCESS''
               \<longleftrightarrow> p \<noteq> PNone \<and> p \<noteq> PNaN)
          \<and> (cell (columns built) (rows built ! i) ''status'' = PStr ''FAILURE''
               \<longleftrightarrow> p = PNone \<or> p = PNaN)"
      by (simp add: notna_iff)
  qed
  with b bl show ?thesis by blast
qed

theorem results_loop_status_witness:
  "results_loop (Some ''suite1'') [(''tags'', Scalar (PStr ''x,y''))] empty_frame
       [[(''model'', PStr ''A''), (''performance'', PNum ''10.0''), (''metric'', PStr ''tok/s'')],
        [(''model'', PStr ''B''), (''performance'', PNaN), (''metric'', PStr ''tok/s'')]]
     = Inr \<lparr>columns = [''tags'', ''model'', ''performance'', ''metric'', ''status''],
            rows = [[PStr ''x,y'', PStr ''suite1_A'', PNum ''10.0'', PStr ''tok/s'', PStr ''SUCCESS''],
                    [PStr ''x,y'', PStr ''suite1_B'', PNaN, PStr ''tok/s'', PStr ''FAILURE'']]\<rparr>"
proof -
  let ?recs = "[[(''model'', PStr ''A''), (''performance'', PNum ''10.0''), (''metric'', PStr ''tok/s'')],
        [(''model'', PStr ''B''), (''performance'', PNaN), (''metric'', PStr ''tok/s'')]]"
  have h1: "\<forall>r\<in>set ?recs. map_of r ''model'' \<noteq> None \<and> map_of r ''performance'' \<noteq> None
              \<and> map_of r ''metric'' \<noteq> None" by simp
  have h2: "cells_of (map snd [(''tags'', Scalar (PStr ''x,y''))]) = Inr [PStr ''x,y'']" by simp
  from results_loop_status [OF h1 h2, of "''suite1''"]
  show ?thesis
    by (simp add: Let_def DataFrame_def empty_frame_def pd_concat_def reindex_row_def cell_def)
qed





section \<open>The single-result path\<close>

text \<open>
  C4, as the claim states it: the report does not exist and the artifact has no tags.
  \<^verbatim>\<open>flatten_tags\<close> reads the tags of the artifact before anything is written; the
  call raises \<^verbatim>\<open>KeyError\<close> and no report is made.
\<close>

theorem update_perf_csv_single_no_tags:
  "update_perf_csv (Some ''r.json'') None None None ''perf.csv'' None None
       [''r.json'' \<mapsto> JsonFile single_json]
     = (Inl (KeyError [''tags'']), [''r.json'' \<mapsto> JsonFile single_json])"
  by (simp add: update_perf_csv_def load_perf_csv_def handle_single_result_def read_json_def
      perf_entry_dict_to_csv_def flatten_tags_def single_json_def)


text \<open>
  C4, amended. The report does not exist. When the artifact is the one of the scenario,
  without tags, the call raises \<^verbatim>\<open>KeyError\<close> for the tags and leaves every file as
  it was. When the artifact has the four fields of the scenario and then tags, a scalar
  or a list, the call succeeds and the report it leaves has the twenty columns and one
  row: the model, the performance, the metric and the status of the artifact, its
  flattened tags, and every other column empty.
\<close>

theorem update_perf_csv_single_scenario:
  assumes "fs ''perf.csv'' = None"
  shows "(fs ''r.json'' = Some (JsonFile single_json) \<longrightarrow>
            update_perf_csv (Some ''r.json'') None None None ''perf.csv'' None None fs
              = (Inl (KeyError [''tags'']), fs))
       \<and> (fs ''r.json'' = Some (JsonFile (single_json @ [(''tags'', t)])) \<longrightarrow>
            fst (update_perf_csv (Some ''r.json'') None None None ''perf.csv'' None None fs) = Inr ()
          \<and> snd (update_perf_csv (Some ''r.json'') None None None ''perf.csv'' None None fs) ''perf.csv''
              = Some (CsvFile \<lparr>columns = report_columns,
                  rows = [[PNaN, PStr ''resnet'', csv_field (flat t), PNaN, PNaN, PNaN, PNaN, PNaN,
                           PNaN, PNaN, PNaN, PNaN, PNaN, PStr ''123.4'', PStr ''images/sec'',
                           PStr ''SUCCESS'', PNaN, PNaN, PNaN, PNaN]]\<rparr>))"
proof (intro conjI impI)
  have l: "load_perf_csv ''perf.csv'' fs = Inr \<lparr>columns = report_columns, rows = []\<rparr>"
    using assms by (simp add: load_perf_csv_def domIff)
  {
    assume "fs ''r.json'' = Some (JsonFile single_json)"
    then have j: "read_json ''r.json'' fs = Inr single_json" by (simp add: read_json_def)
    have f: "flatten_tags single_json = Inl (KeyError [''tags''])"
      by (simp add: flatten_tags_def single_json_def)
    show "update_perf_csv (Some ''r.json'') None None None ''perf.csv'' None None fs
              = (Inl (KeyError [''tags'']), fs)"
      by (simp add: update_perf_csv_def l handle_single_result_def j perf_entry_dict_to_csv_def f)
  }
  assume "fs ''r.json'' = Some (JsonFile (single_json @ [(''tags'', t)]))"
  then have j: "read_json ''r.json'' fs = Inr (single_json @ [(''tags'', t)])"
    by (simp add: read_json_def)
  have f: "flatten_tags (single_json @ [(''tags'', t)])
      = Inr (single_json @ [(''tags'', Scalar (flat t))])"
    by (cases t) (simp_all add: flatten_tags_def single_json_def)
  have d: "DataFrame (single_json @ [(''tags'', Scalar (flat t))])
      = Inr \<lparr>columns = [''model'', ''performance'', ''metric'', ''status'', ''tags''],
             rows = [[PStr ''resnet'', PStr ''123.4'', PStr ''images/sec'', PStr ''SUCCESS'', flat t]]\<rparr>"
    by (simp add: DataFrame_def single_json_def)
  show "fst (update_perf_csv (Some ''r.json'') None None None ''perf.csv'' None None fs) = Inr ()"
    by (simp add: update_perf_csv_def l handle_single_result_def j perf_entry_dict_to_csv_def f d)
  show "snd (update_perf_csv (Some ''r.json'') None None None ''perf.csv'' None None fs) ''perf.csv''
              = Some (CsvFile \<lparr>columns = report_columns,
                  rows = [[PNaN, PStr ''resnet'', csv_field (flat t), PNaN, PNaN, PNaN, PNaN, PNaN,
                           PNaN, PNaN, PNaN, PNaN, PNaN, PStr ''123.4'', PStr ''images/sec'',
                           PStr ''SUCCESS'', PNaN, PNaN, PNaN, PNaN]]\<rparr>)"
    by (simp add: update_perf_csv_def l handle_single_result_def j perf_entry_dict_to_csv_def f d
        pd_concat_def report_columns_def reindex_row_def cell_def to_csv_def perf_entry_df_to_csv_def)
qed

theorem update_perf_csv_single_scenario_witness:
  "update_perf_csv (Some ''r.json'') None None None ''perf.csv'' None None
       [''r.json'' \<mapsto> JsonFile (single_json @ [(''tags'', JList [])])]
     = (Inr (),
        [''r.json'' \<mapsto> JsonFile (single_json @ [(''tags'', JList [])]),
         ''perf_entry.csv'' \<mapsto> CsvFile \<lparr>columns = [''model'', ''performance'', ''metric'', ''status'', ''tags''],
             rows = [[PStr ''resnet'', PStr ''123.4'', PStr ''images/sec'', PStr ''SUCCESS'', PNaN]]\<rparr>,
         ''perf.csv'' \<mapsto> CsvFile \<lparr>columns = report_columns,
           rows = [[PNaN, PStr ''resnet'', PNaN, PNaN, PNaN, PNaN, PNaN, PNaN, PNaN,
                    PNaN, PNaN, PNaN, PNaN, PStr ''123.4'', PStr ''images/sec'', PStr ''SUCCESS'',
                    PNaN, PNaN, PNaN, PNaN]]\<rparr>])
   \<and> fst (update_perf_csv (Some ''r.json'') None None None ''perf.csv'' None None
            [''r.json'' \<mapsto> JsonFile single_json]) = Inl (KeyError [''tags''])"
proof -
  let ?fs = "[''r.json'' \<mapsto> JsonFile (single_json @ [(''tags'', JList [])])]"
  let ?gs = "[''r.json'' \<mapsto> JsonFile single_json]"
  have h: "?fs ''perf.csv'' = None" by simp
  have h0: "?gs ''perf.csv'' = None" by simp
  have a: "?fs ''r.json'' = Some (JsonFile (single_json @ [(''tags'', JList [])]))" by simp
  have a0: "?gs ''r.json'' = Some (JsonFile single_json)" by simp
  from update_perf_csv_single_scenario [of ?fs "JList []", OF h] a
    update_perf_csv_single_scenario [of ?gs "JList []", OF h0] a0
  show ?thesis
    by (simp add: update_perf_csv_def load_perf_csv_def handle_single_result_def read_json_def
        perf_entry_dict_to_csv_def flatten_tags_def single_json_def DataFrame_def
        pd_concat_def report_columns_def reindex_row_def cell_def to_csv_def perf_entry_df_to_csv_def)
qed

section \<open>The columns of the report\<close>

text \<open>
  C6, as the claim states it: a single-result artifact with a key outside the twenty
  columns. The call succeeds and the report it leaves has twenty-one columns, the key
  added after the twenty.
\<close>

theorem update_perf_csv_extra_key_adds_column:
  "update_perf_csv (Some ''r.json'') None None None ''perf.csv'' None None
       [''r.json'' \<mapsto> JsonFile [(''extra'', Scalar (PStr ''x'')), (''tags'', Scalar (PStr ''t'')),
                                 (''model'', Scalar (PStr ''m''))]]
     = (Inr (),
        [''r.json'' \<mapsto> JsonFile [(''extra'', Scalar (PStr ''x'')), (''tags'', Scalar (PStr ''t'')),
                                 (''model'', Scalar (PStr ''m''))],
         ''perf_entry.csv'' \<mapsto> CsvFile \<lparr>columns = [''extra'', ''tags'', ''model''],
             rows = [[PStr ''x'', PStr ''t'', PStr ''m'']]\<rparr>,
         ''perf.csv'' \<mapsto> CsvFile \<lparr>columns = report_columns @ [''extra''],
           rows = [[PNaN, PStr ''m'', PStr ''t'', PNaN, PNaN, PNaN, PNaN, PNaN, PNaN,
                    PNaN, PNaN, PNaN, PNaN, PNaN, PNaN, PNaN,
                    PNaN, PNaN, PNaN, PNaN, PStr ''x'']]\<rparr>])
   \<and> length (report_columns @ [''extra'']) = 21"
  by (simp add: update_perf_csv_def load_perf_csv_def handle_single_result_def read_json_def
        perf_entry_dict_to_csv_def flatten_tags_def DataFrame_def
        pd_concat_def report_columns_def reindex_row_def cell_def to_csv_def perf_entry_df_to_csv_def)

text \<open>
  C6, amended. After every successful call the report holds a table in which every row
  has as many fields as the header; the header starts with the columns the report had
  (the twenty report columns when it did not exist), and the rows the report had are
  empty under any column added. On the multiple-results path the header is unchanged.
  On the single and the exception path the header is the old one followed by the keys of
  the artifact that are not columns yet, in the artifact's order: it is unchanged exactly
  when every key of the artifact is a column, whatever the order of the keys; and the
  new row is empty under every column that is not a key of the artifact.
\<close>

theorem update_perf_csv_columns:
  assumes "update_perf_csv sr er fr mr perf_csv mn ci fs = (Inr (), fs')"
  shows "\<exists>df0 df'. load_perf_csv perf_csv fs = Inr df0 \<and> fs' perf_csv = Some (CsvFile df')
     \<and> (perf_csv \<notin> dom fs \<longrightarrow> columns df0 = report_columns)
     \<and> (\<forall>r\<in>set (rows df'). length r = length (columns df'))
     \<and> (\<forall>i<length (rows df0). \<forall>c. c \<notin> set (columns df0) \<longrightarrow>
            cell (columns df') (rows df' ! i) c = PNaN)
     \<and> (truthy mr \<longrightarrow> columns df' = columns df0)
     \<and> (\<not> truthy mr \<longrightarrow>
          (\<exists>j. fs (the (if truthy sr then sr else er)) = Some (JsonFile j)
             \<and> columns df' = columns df0 @ filter (\<lambda>k. k \<notin> set (columns df0)) (map fst j)
             \<and> (columns df' = columns df0 \<longleftrightarrow> set (map fst j) \<subseteq> set (columns df0))
             \<and> (\<forall>c. c \<notin> set (map fst j) \<longrightarrow> cell (columns df') (last (rows df')) c = PNaN)))"
proof -
  from assms obtain df0 where l: "load_perf_csv perf_csv fs = Inr df0"
    by (auto simp: update_perf_csv_def split: sum.splits)
  have fresh: "perf_csv \<notin> dom fs \<longrightarrow> columns df0 = report_columns"
  proof
    assume "perf_csv \<notin> dom fs"
    then have "load_perf_csv perf_csv fs = Inr \<lparr>columns = report_columns, rows = []\<rparr>"
      by (simp add: load_perf_csv_def)
    with l have "df0 = \<lparr>columns = report_columns, rows = []\<rparr>" by simp
    then show "columns df0 = report_columns" by simp
  qed
  define step where "step =
     (if truthy mr then handle_multiple_results df0 (the mr) ci mn fs
      else if truthy sr then handle_single_result df0 (the sr) fs
      else if truthy er then handle_exception_result df0 (the er) fs
      else (Inl (RuntimeError
        ''At least one of the following must be provided: single_result, exception_result, failed_result, multiple_results''),
        fs))"
  from assms l obtain dfr fs1 where st: "step = (Inr dfr, fs1)"
    and fs': "fs' = to_csv dfr perf_csv fs1"
    by (auto simp: update_perf_csv_def step_def split: sum.splits prod.splits)
  define df' where "df' = \<lparr>columns = columns dfr, rows = map (map csv_field) (rows dfr)\<rparr>"
  have written: "fs' perf_csv = Some (CsvFile df')"
    by (simp add: fs' to_csv_def df'_def)
  have conc: "\<exists>b. dfr = pd_concat df0 b"
  proof (cases "truthy mr")
    case True
    with st have "handle_multiple_results df0 (the mr) ci mn fs = (Inr dfr, fs1)"
      by (simp add: step_def)
    then show ?thesis by (rule handle_multiple_results_concat)
  next
    case False
    with st have "\<exists>p. handle_single_result df0 p fs = (Inr dfr, fs1)"
      using handle_exception_result_is_single [of df0 "the er" fs]
      by (auto simp: step_def split: if_splits)
    then show ?thesis using handle_single_result_concat by blast
  qed
  then obtain b where dfr: "dfr = pd_concat df0 b" by blast
  have lens: "\<forall>r\<in>set (rows df'). length r = length (columns df')"
    using pd_concat_row_lengths [of df0 b] by (auto simp: df'_def dfr)
  have old: "\<forall>i<length (rows df0). \<forall>c. c \<notin> set (columns df0) \<longrightarrow>
            cell (columns df') (rows df' ! i) c = PNaN"
  proof (intro allI impI)
    fix i c assume i: "i < length (rows df0)" and c: "c \<notin> set (columns df0)"
    from i have "i < length (rows dfr)" by (simp add: dfr length_rows_pd_concat)
    then have "cell (columns df') (rows df' ! i) c = csv_field (cell (columns dfr) (rows dfr ! i) c)"
      by (simp add: df'_def cell_map_csv_field)
    also have "cell (columns dfr) (rows dfr ! i) c = cell (columns df0) (rows df0 ! i) c"
      unfolding dfr using i by (rule cell_pd_concat_old)
    also have "\<dots> = PNaN" using c by (rule cell_absent)
    finally show "cell (columns df') (rows df' ! i) c = PNaN" by simp
  qed
  have multi: "truthy mr \<longrightarrow> columns df' = columns df0"
  proof
    assume "truthy mr"
    with st have "handle_multiple_results df0 (the mr) ci mn fs = (Inr dfr, fs1)"
      by (simp add: step_def)
    then have "columns dfr = columns df0" by (rule handle_multiple_results_columns)
    then show "columns df' = columns df0" by (simp add: df'_def)
  qed
  have single: "\<not> truthy mr \<longrightarrow>
          (\<exists>j. fs (the (if truthy sr then sr else er)) = Some (JsonFile j)
             \<and> columns df' = columns df0 @ filter (\<lambda>k. k \<notin> set (columns df0)) (map fst j)
             \<and> (columns df' = columns df0 \<longleftrightarrow> set (map fst j) \<subseteq> set (columns df0))
             \<and> (\<forall>c. c \<notin> set (map fst j) \<longrightarrow> cell (columns df') (last (rows df')) c = PNaN))"
  proof
    assume nm: "\<not> truthy mr"
    let ?p = "the (if truthy sr then sr else er)"
    from nm st have "handle_single_result df0 ?p fs = (Inr dfr, fs1)"
      using handle_exception_result_is_single [of df0 "the er" fs]
      by (auto simp: step_def split: if_splits)
    from handle_single_result_concat [OF this]
    obtain j and j' :: dict and xs where fj: "fs ?p = Some (JsonFile j)"
      and k: "map fst j' = map fst j"
      and d: "dfr = pd_concat df0 \<lparr>columns = map fst j', rows = [xs]\<rparr>"
      by blast
    have cols: "columns df' = columns df0 @ filter (\<lambda>k. k \<notin> set (columns df0)) (map fst j)"
      by (simp add: df'_def d columns_pd_concat k)
    have same: "columns df' = columns df0 \<longleftrightarrow> set (map fst j) \<subseteq> set (columns df0)"
      unfolding cols by (auto simp: filter_empty_conv)
    have absent: "\<forall>c. c \<notin> set (map fst j) \<longrightarrow> cell (columns df') (last (rows df')) c = PNaN"
    proof (intro allI impI)
      fix c assume c: "c \<notin> set (map fst j)"
      have "last (rows df') = map csv_field (reindex_row (columns dfr) (map fst j') xs)"
        by (simp add: df'_def d rows_pd_concat last_map)
      then have "cell (columns df') (last (rows df')) c
          = csv_field (cell (columns dfr) (reindex_row (columns dfr) (map fst j') xs) c)"
        by (simp add: df'_def cell_map_csv_field)
      also have "cell (columns dfr) (reindex_row (columns dfr) (map fst j') xs) c = PNaN"
        using c k by (simp add: cell_reindex_row cell_absent)
      finally show "cell (columns df') (last (rows df')) c = PNaN" by simp
    qed
    from fj cols same absent
    show "\<exists>j. fs ?p = Some (JsonFile j)
             \<and> columns df' = columns df0 @ filter (\<lambda>k. k \<notin> set (columns df0)) (map fst j)
             \<and> (columns df' = columns df0 \<longleftrightarrow> set (map fst j) \<subseteq> set (columns df0))
             \<and> (\<forall>c. c \<notin> set (map fst j) \<longrightarrow> cell (columns df') (last (rows df')) c = PNaN)"
      by blast
  qed
  from l written fresh lens old multi single show ?thesis by blast
qed

theorem update_perf_csv_columns_witness:
  "update_perf_csv (Some ''r.json'') None None None ''perf.csv'' None None
       [''r.json'' \<mapsto> JsonFile [(''status'', Scalar (PStr ''SUCCESS'')), (''tags'', Scalar (PStr ''t'')),
                                 (''model'', Scalar (PStr ''m''))]]
     = (Inr (),
        [''r.json'' \<mapsto> JsonFile [(''status'', Scalar (PStr ''SUCCESS'')), (''tags'', Scalar (PStr ''t'')),
                                 (''model'', Scalar (PStr ''m''))],
         ''perf_entry.csv'' \<mapsto> CsvFile \<lparr>columns = [''status'', ''tags'', ''model''],
             rows = [[PStr ''SUCCESS'', PStr ''t'', PStr ''m'']]\<rparr>,
         ''perf.csv'' \<mapsto> CsvFile \<lparr>columns = report_columns,
           rows = [[PNaN, PStr ''m'', PStr ''t'', PNaN, PNaN, PNaN, PNaN, PNaN, PNaN,
                    PNaN, PNaN, PNaN, PNaN, PNaN, PNaN, PStr ''SUCCESS'',
                    PNaN, PNaN, PNaN, PNaN]]\<rparr>])"
proof -
  let ?j = "[(''status'', Scalar (PStr ''SUCCESS'')), (''tags'', Scalar (PStr ''t'')),
             (''model'', Scalar (PStr ''m''))]"
  let ?fs = "[''r.json'' \<mapsto> JsonFile ?j]"
  let ?fs' = "[''r.json'' \<mapsto> JsonFile ?j,
         ''perf_entry.csv'' \<mapsto> CsvFile \<lparr>columns = [''status'', ''tags'', ''model''],
             rows = [[PStr ''SUCCESS'', PStr ''t'', PStr ''m'']]\<rparr>,
         ''perf.csv'' \<mapsto> CsvFile \<lparr>columns = report_columns,
           rows = [[PNaN, PStr ''m'', PStr ''t'', PNaN, PNaN, PNaN, PNaN, PNaN, PNaN,
                    PNaN, PNaN, PNaN, PNaN, PNaN, PNaN, PStr ''SUCCESS'',
                    PNaN, PNaN, PNaN, PNaN]]\<rparr>]"
  have h: "update_perf_csv (Some ''r.json'') None None None ''perf.csv'' None None ?fs = (Inr (), ?fs')"
    by (simp add: update_perf_csv_def load_perf_csv_def handle_single_result_def read_json_def
        perf_entry_dict_to_csv_def flatten_tags_def DataFrame_def
        pd_concat_def report_columns_def reindex_row_def cell_def to_csv_def perf_entry_df_to_csv_def)
  from update_perf_csv_columns [OF h] h show ?thesis by simp
qed

section \<open>The header of the results table\<close>

text \<open>
  C1, as the claim states it: a results table with a fourth column. The call raises the
  error for a table that does not have three columns; the message is fixed and does not
  contain the name of the fourth column.
\<close>

theorem update_perf_csv_extra_column_not_named:
  "update_perf_csv None None None (Some ''m.csv'') ''perf.csv'' (Some ''s'') (Some ''c.json'')
       [''m.csv'' \<mapsto> CsvFile extra_column_results]
     = (Inl (RuntimeError
          ''Multiple Results CSV file must have three columns: model, performance, metric''),
        [''m.csv'' \<mapsto> CsvFile extra_column_results])
   \<and> \<not> sublist ''extra''
         ''Multiple Results CSV file must have three columns: model, performance, metric''"
proof
  show "update_perf_csv None None None (Some ''m.csv'') ''perf.csv'' (Some ''s'') (Some ''c.json'')
       [''m.csv'' \<mapsto> CsvFile extra_column_results]
     = (Inl (RuntimeError
          ''Multiple Results CSV file must have three columns: model, performance, metric''),
        [''m.csv'' \<mapsto> CsvFile extra_column_results])"
    by (simp add: update_perf_csv_def load_perf_csv_def handle_multiple_results_def read_csv_def
        extra_column_results_def df_strip_columns_def Let_def)
  show "\<not> sublist ''extra''
         ''Multiple Results CSV file must have three columns: model, performance, metric''"
    by code_simp
qed

text \<open>
  C1, amended. When the report table loads and the stripped header of the results table
  is not the three columns model, performance and metric in some order, the call raises
  \<^verbatim>\<open>RuntimeError\<close> before it reads the common information or any row, and leaves
  every file as it was. When the header does not have three columns the message is the
  fixed one that lists the three columns; when it has three, the message names the first
  of model, performance, metric that the header lacks. The unexpected column is never
  named.
\<close>

theorem update_perf_csv_invalid_header:
  assumes "mr \<noteq> []" and "fs mr = Some (CsvFile t)" and "columns t \<noteq> []"
    and "load_perf_csv perf_csv fs = Inr df"
    and "\<not> (length (columns t) = 3 \<and> set (map strip (columns t)) = set headings)"
  shows "update_perf_csv sr er fr (Some mr) perf_csv mn ci fs =
           (Inl (RuntimeError
              (if length (columns t) \<noteq> 3
               then ''Multiple Results CSV file must have three columns: model, performance, metric''
               else ''Multiple Results CSV file is missing the ''
                    @ hd (filter (\<lambda>h. h \<notin> set (map strip (columns t))) headings) @ '' column'')),
            fs)
       \<and> (length (columns t) = 3 \<longrightarrow>
            hd (filter (\<lambda>h. h \<notin> set (map strip (columns t))) headings)
              \<in> set headings - set (map strip (columns t)))"
proof -
  define header where "header = map strip (columns t)"
  have rd: "read_csv mr fs = Inr t" using assms(2,3) by (simp add: read_csv_def)
  have hdr: "columns (df_strip_columns t) = header" by (simp add: df_strip_columns_def header_def)
  show ?thesis
  proof (cases "length (columns t) = 3")
    case False
    then have "length header \<noteq> 3" by (simp add: header_def)
    with False show ?thesis
      using assms(1,4)
      by (simp add: update_perf_csv_def handle_multiple_results_def rd hdr Let_def header_def)
  next
    case True
    then have l: "length header = 3" by (simp add: header_def)
    from True assms(5) have "set header \<noteq> set headings" by (simp add: header_def)
    with l have "\<not> set headings \<subseteq> set header" using three_headings by blast
    then have ne: "filter (\<lambda>h. h \<notin> set header) headings \<noteq> []"
      by (auto simp: filter_empty_conv)
    then have "hd (filter (\<lambda>h. h \<notin> set header) headings) \<in> set (filter (\<lambda>h. h \<notin> set header) headings)"
      by (rule hd_in_set)
    then have mem: "hd (filter (\<lambda>h. h \<notin> set header) headings) \<in> set headings - set header"
      by auto
    from check_headings_missing [OF ne] True l mem show ?thesis
      using assms(1,4) unfolding header_def [symmetric]
      by (simp add: update_perf_csv_def handle_multiple_results_def rd hdr Let_def)
  qed
qed


theorem update_perf_csv_invalid_header_witness:
  "update_perf_csv None None None (Some ''m.csv'') ''perf.csv'' (Some ''s'') (Some ''c.json'')
       [''m.csv'' \<mapsto> CsvFile perf_header_results]
     = (Inl (RuntimeError ''Multiple Results CSV file is missing the performance column''),
        [''m.csv'' \<mapsto> CsvFile perf_header_results])"
proof -
  let ?fs = "[''m.csv'' \<mapsto> CsvFile perf_header_results]"
  have h1: "''m.csv'' \<noteq> []" by simp
  have h2: "?fs ''m.csv'' = Some (CsvFile perf_header_results)" by simp
  have h3: "columns perf_header_results \<noteq> []" by (simp add: perf_header_results_def)
  have h4: "load_perf_csv ''perf.csv'' ?fs = Inr \<lparr>columns = report_columns, rows = []\<rparr>"
    by (simp add: load_perf_csv_def)
  have s: "map strip (columns perf_header_results) = [''model'', ''perf'', ''metric'']"
    by (simp add: perf_header_results_def strip_def isspace_def)
  have "''performance'' \<in> set headings" by (simp add: headings_def)
  moreover have "''performance'' \<notin> set [''model'', ''perf'', ''metric'']" by simp
  ultimately have h5: "\<not> (length (columns perf_header_results) = 3
      \<and> set (map strip (columns perf_header_results)) = set headings)"
    unfolding s by blast
  from update_perf_csv_invalid_header [OF h1 h2 h3 h4 h5, of None None None "Some ''s''" "Some ''c.json''"]
  show ?thesis unfolding s by (simp add: headings_def perf_header_results_def)
qed


end
